theory Spec2Isabelle
  imports Main
begin

section \<open>Python values\<close>

text \<open>
  The wrapper is the Python class \<open>Driverator\<close> (src/driverator/driverator.py). Its
  identifiers are \<open>Optional[str]\<close> values tested by truthiness (\<open>if not self.file_id\<close>):
  \<open>None\<close> and the empty string both count as unset.
\<close>

datatype exn =
    ValueError string
  | AttributeError string
  | KeyError string
  | FileNotFoundError string
  | OSError string
  | HttpError string
  | AuthError string

definition truthy :: "string option \<Rightarrow> bool" where
  "truthy v = (case v of None \<Rightarrow> False | Some s \<Rightarrow> s \<noteq> [])"

text \<open>Interpolation of an \<open>Optional[str]\<close> into an f-string.\<close>

definition fmt :: "string option \<Rightarrow> string" where
  "fmt v = (case v of None \<Rightarrow> ''None'' | Some s \<Rightarrow> s)"

text \<open>\<open>a or b\<close> on \<open>Optional[str]\<close> operands.\<close>

definition py_or :: "string option \<Rightarrow> string option \<Rightarrow> string option" where
  "py_or a b = (if truthy a then a else b)"

text \<open>A string between single quotes, as the query f-strings write \<open>'{name}'\<close>.\<close>

definition sq :: "string \<Rightarrow> string" where
  "sq s = [CHR 0x27] @ s @ [CHR 0x27]"

text \<open>
  \<open>Path(local_path).name\<close> for the POSIX flavour of pathlib: the last path component,
  empty components and single dots dropped; the empty string when no component is left.
\<close>

fun split_on :: "char \<Rightarrow> string \<Rightarrow> string list" where
  "split_on d [] = [[]]"
| "split_on d (c # cs) =
     (if c = d then [] # split_on d cs
      else (case split_on d cs of [] \<Rightarrow> [[c]] | w # ws \<Rightarrow> (c # w) # ws))"

definition path_name :: "string \<Rightarrow> string" where
  "path_name p =
     (case filter (\<lambda>c. c \<noteq> [] \<and> c \<noteq> ''.'') (split_on (CHR ''/'') p) of
        [] \<Rightarrow> []
      | c # cs \<Rightarrow> last (c # cs))"

section \<open>The remote client boundary\<close>

text \<open>
  Request bodies are Python dicts; a key that the code does not write is \<open>None\<close>.
  \<open>file_metadata\<close> is the body of \<open>files().create\<close> and \<open>files().update\<close>,
  \<open>permission_body\<close> the body of \<open>permissions().create\<close>.
\<close>

record file_metadata =
  b_name :: "string option"
  b_mimeType :: "string option"
  b_parents :: "string list option"
  b_trashed :: "bool option"

record permission_body =
  b_type :: string
  b_role :: string
  b_emailAddress :: "string option"

text \<open>
  One constructor per request the class builds and executes, with the keyword arguments
  the source passes (\<open>fileId=self.file_id\<close> is the attribute as it stands, an
  \<open>Optional[str]\<close>; a keyword the source omits is \<open>None\<close>). \<open>NextChunk\<close> is one
  \<open>downloader.next_chunk()\<close> on the \<open>get_media\<close> request of a file.
\<close>

datatype call =
    FilesGet (g_fileId: "string option") (g_fields: string)
  | FilesList (l_q: string) (l_spaces: string) (l_fields: string)
  | FilesCreate (c_body: file_metadata) (c_media_body: "string option") (c_fields: string)
  | FilesUpdate (u_fileId: "string option") (u_body: "file_metadata option")
      (u_media_body: "string option") (u_addParents: "string option")
      (u_removeParents: "string option") (u_fields: "string option")
  | FilesDelete (d_fileId: "string option")
  | NextChunk (n_fileId: "string option")
  | PermissionsCreate (pc_fileId: "string option") (pc_body: permission_body)
      (pc_sendNotificationEmail: "bool option")
  | PermissionsList (pl_fileId: "string option") (pl_fields: string)
  | PermissionsDelete (pd_fileId: "string option") (pd_permissionId: string)

text \<open>
  A response is a dict read with \<open>.get\<close>: every key may be absent. \<open>r_chunk\<close> and
  \<open>r_done\<close> are what a \<open>next_chunk\<close> writes to the local file and its completion flag.
\<close>

record file_entry =
  e_id :: "string option"
  e_name :: "string option"

record permission =
  perm_id :: "string option"
  perm_type :: "string option"
  perm_role :: "string option"
  perm_emailAddress :: "string option"

record reply =
  r_id :: "string option"
  r_name :: "string option"
  r_mimeType :: "string option"
  r_size :: "string option"
  r_createdTime :: "string option"
  r_modifiedTime :: "string option"
  r_trashed :: "bool option"
  r_parents :: "string list option"
  r_files :: "file_entry list option"
  r_permissions :: "permission list option"
  r_chunk :: string
  r_done :: bool

text \<open>
  The collaborators the class does not implement: the storage provider, which answers a
  request given the requests issued before it (or raises); the credential provider, which
  loads the key file (or raises); and whether a local path can be opened for writing.
\<close>

record env =
  server :: "call list \<Rightarrow> call \<Rightarrow> exn + reply"
  credentials :: "string \<Rightarrow> exn option"
  openable :: "string \<Rightarrow> bool"

section \<open>The Handle and the state it runs in\<close>

text \<open>
  The attributes of a \<open>Driverator\<close> object. \<open>data_id\<close> is the cache identity handed
  to \<open>JSONCache.__init__\<close>; \<open>drive_service\<close> is \<open>auth_helper.drive_service\<close>
  (\<open>False\<close> for \<open>None\<close>); the fields prefixed \<open>u_\<close> are the attributes the source
  writes with a leading underscore, \<open>None\<close> when the attribute does not exist.
\<close>

record handle =
  data_id :: string
  service_account_file :: string
  file_id :: "string option"
  file_name :: "string option"
  u_folder_id :: "string option"
  u_folder_name :: "string option"
  drive_service :: bool
  u_url :: "string option"
  u_download_url :: "string option"
  u_size :: "string option"
  u_mime_type :: "string option"
  u_created_time :: "string option"
  u_modified_time :: "string option"

text \<open>
  The object together with what its methods act on: the requests issued so far (oldest
  first), the metadata cache and the local files.
\<close>

record sys =
  self :: handle
  calls :: "call list"
  cache :: "string \<Rightarrow> handle option"
  fs :: "string \<Rightarrow> string option"

text \<open>
  An operation takes the state and returns its result, or the exception it raised, with the
  state as the operation left it: an exception does not undo earlier assignments.
\<close>

type_synonym 'a io = "sys \<Rightarrow> (exn + 'a) \<times> sys"

definition ret :: "'a \<Rightarrow> 'a io" where
  "ret x s = (Inr x, s)"

definition raise :: "exn \<Rightarrow> 'a io" where
  "raise e s = (Inl e, s)"

definition seq :: "'a io \<Rightarrow> ('a \<Rightarrow> 'b io) \<Rightarrow> 'b io" where
  "seq m f s = (case m s of (Inl e, s1) \<Rightarrow> (Inl e, s1) | (Inr x, s1) \<Rightarrow> f x s1)"

text \<open>\<open>try: m  except: h\<close> with a bare \<open>except\<close>.\<close>

definition try_except :: "'a io \<Rightarrow> 'a io \<Rightarrow> 'a io" where
  "try_except m h s = (case m s of (Inl e, s1) \<Rightarrow> h s1 | (Inr x, s1) \<Rightarrow> (Inr x, s1))"

definition assign :: "(handle \<Rightarrow> handle) \<Rightarrow> unit io" where
  "assign f s = (Inr (), s\<lparr>self := f (self s)\<rparr>)"

text \<open>
  \<open>self.auth_helper.drive_service.files().<request>.execute()\<close>: on a service that
  was never built the attribute access raises before any request exists; otherwise the
  request is issued and the provider answers it.
\<close>

definition resource_of :: "call \<Rightarrow> string" where
  "resource_of c =
     (case c of
        PermissionsCreate _ _ _ \<Rightarrow> ''permissions''
      | PermissionsList _ _ \<Rightarrow> ''permissions''
      | PermissionsDelete _ _ \<Rightarrow> ''permissions''
      | _ \<Rightarrow> ''files'')"

definition no_service :: "call \<Rightarrow> exn" where
  "no_service c =
     AttributeError (sq ''NoneType'' @ '' object has no attribute '' @ sq (resource_of c))"

definition execute :: "env \<Rightarrow> call \<Rightarrow> reply io" where
  "execute env c s =
     (if \<not> drive_service (self s) then (Inl (no_service c), s)
      else (server env (calls s) c, s\<lparr>calls := calls s @ [c]\<rparr>))"

text \<open>
  Modelled from the spec: \<open>JSONCache\<close> (package cacherator) is the external Metadata
  Cache, \<open>save(cacheKey, record)\<close>; the entry under the Handle's cache identity becomes
  the Handle's current field set.
\<close>

definition json_cache_save :: "unit io" where
  "json_cache_save s = (Inr (), s\<lparr>cache := (cache s)(data_id (self s) \<mapsto> self s)\<rparr>)"

section \<open>Construction and the derived URLs\<close>

text \<open>
  \<open>__init__\<close>: the cache identity is \<open>f"driverator_{file_name or file_id or 'file'}"\<close>;
  the remaining lines store the arguments. No URL attribute exists yet and the service is
  not built.
\<close>

definition Driverator ::
  "string \<Rightarrow> string option \<Rightarrow> string option \<Rightarrow> string option \<Rightarrow> string option \<Rightarrow> handle" where
  "Driverator saf fid fname foid foname =
     \<lparr>data_id = ''driverator_'' @ fmt (py_or (py_or fname fid) (Some ''file'')),
      service_account_file = saf,
      file_id = fid,
      file_name = fname,
      u_folder_id = foid,
      u_folder_name = foname,
      drive_service = False,
      u_url = None,
      u_download_url = None,
      u_size = None,
      u_mime_type = None,
      u_created_time = None,
      u_modified_time = None\<rparr>"

text \<open>
  Modelled from the spec: \<open>JSONCache.__init__\<close> is external; of its arguments the
  model keeps the clear-on-start flag, which drops the entry under the new Handle's cache
  identity. The cache is a write-through mirror: construction reads nothing from it into
  the Handle, and the time-to-live is not modelled.
\<close>

definition construct ::
  "handle \<Rightarrow> bool \<Rightarrow> (string \<Rightarrow> handle option) \<Rightarrow> (string \<Rightarrow> string option) \<Rightarrow> sys" where
  "construct h clear_cache c f =
     \<lparr>self = h, calls = [],
      cache = (if clear_cache then c(data_id h := None) else c),
      fs = f\<rparr>"



section \<open>Existence, metadata and the resolver\<close>

definition authenticate :: "env \<Rightarrow> unit io" where
  "authenticate env s =
     (case credentials env (service_account_file (self s)) of
        Some e \<Rightarrow> (Inl e, s)
      | None \<Rightarrow> (Inr (), s\<lparr>self := (self s)\<lparr>drive_service := True\<rparr>\<rparr>))"

definition load_metadata :: "env \<Rightarrow> unit io" where
  "load_metadata env s =
     seq (execute env (FilesGet (file_id (self s))
            ''id, name, mimeType, size, createdTime, modifiedTime''))
       (\<lambda>file. seq (assign (\<lambda>h. h\<lparr>file_name := r_name file,
                                   u_size := r_size file,
                                   u_mime_type := r_mimeType file,
                                   u_created_time := r_createdTime file,
                                   u_modified_time := r_modifiedTime file,
                                   u_url := Some (''https://drive.google.com/file/d/''
                                                  @ fmt (file_id h) @ ''/view''),
                                   u_download_url :=
                                     Some (''https://drive.google.com/uc?export=download&id=''
                                           @ fmt (file_id h))\<rparr>))
                  (\<lambda>_. json_cache_save)) s"

definition exists :: "env \<Rightarrow> bool io" where
  "exists env s =
     (if \<not> truthy (file_id (self s)) then ret False s
      else try_except
             (seq (execute env (FilesGet (file_id (self s)) ''id, trashed''))
                (\<lambda>file. ret (\<not> (case r_trashed file of None \<Rightarrow> False | Some b \<Rightarrow> b))))
             (ret False) s)"

definition find_file_by_name :: "env \<Rightarrow> string \<Rightarrow> string option io" where
  "find_file_by_name env name s =
     (let query = ''name='' @ sq name @ '' and trashed=false and mimeType!=''
                  @ sq ''application/vnd.google-apps.folder'';
          query = (if truthy (u_folder_id (self s))
                   then query @ '' and '' @ sq (fmt (u_folder_id (self s))) @ '' in parents''
                   else query)
      in seq (execute env (FilesList query ''drive'' ''files(id)''))
           (\<lambda>results.
              case (case r_files results of None \<Rightarrow> [] | Some fl \<Rightarrow> fl) of
                [] \<Rightarrow> ret None
              | f # _ \<Rightarrow> (case e_id f of None \<Rightarrow> raise (KeyError ''id'')
                          | Some i \<Rightarrow> ret (Some i))) s)"

definition create_folder :: "env \<Rightarrow> string \<Rightarrow> string option \<Rightarrow> string option io" where
  "create_folder env name parent_folder_id s =
     (let file_metadata =
            \<lparr>b_name = Some name,
             b_mimeType = Some ''application/vnd.google-apps.folder'',
             b_parents = (if truthy parent_folder_id then Some [fmt parent_folder_id]
                          else if truthy (u_folder_id (self s))
                               then Some [fmt (u_folder_id (self s))]
                          else None),
             b_trashed = None\<rparr>
      in seq (execute env (FilesCreate file_metadata None ''id''))
           (\<lambda>folder. ret (r_id folder)) s)"

definition find_folder_by_name :: "env \<Rightarrow> string \<Rightarrow> string option \<Rightarrow> string option io" where
  "find_folder_by_name env name parent_folder_id s =
     (let query = ''name='' @ sq name @ '' and mimeType=''
                  @ sq ''application/vnd.google-apps.folder'' @ '' and trashed=false'';
          query = (if truthy parent_folder_id
                   then query @ '' and '' @ sq (fmt parent_folder_id) @ '' in parents''
                   else if truthy (u_folder_id (self s))
                        then query @ '' and '' @ sq (fmt (u_folder_id (self s))) @ '' in parents''
                   else query)
      in seq (execute env (FilesList query ''drive'' ''files(id, name)''))
           (\<lambda>results.
              case (case r_files results of None \<Rightarrow> [] | Some fl \<Rightarrow> fl) of
                [] \<Rightarrow> ret None
              | f # _ \<Rightarrow> (case e_id f of None \<Rightarrow> raise (KeyError ''id'')
                          | Some i \<Rightarrow> ret (Some i))) s)"

section \<open>initialize\<close>

definition initialize :: "env \<Rightarrow> unit io" where
  "initialize env =
     seq (authenticate env) (\<lambda>_.
     seq (\<lambda>s. if truthy (u_folder_name (self s)) \<and> \<not> truthy (u_folder_id (self s))
              then seq (find_folder_by_name env (the (u_folder_name (self s))) None)
                     (\<lambda>found.
                        seq (assign (\<lambda>h. h\<lparr>u_folder_id := found\<rparr>))
                          (\<lambda>_. if \<not> truthy found
                                then (\<lambda>s1. seq (create_folder env (the (u_folder_name (self s1))) None)
                                             (\<lambda>created. assign (\<lambda>h. h\<lparr>u_folder_id := created\<rparr>)) s1)
                                else ret ())) s
              else ret () s) (\<lambda>_.
     seq (\<lambda>s. if truthy (file_name (self s)) \<and> \<not> truthy (file_id (self s))
              then seq (find_file_by_name env (the (file_name (self s))))
                     (\<lambda>found. assign (\<lambda>h. h\<lparr>file_id := found\<rparr>)) s
              else ret () s) (\<lambda>_.
     (\<lambda>s. if truthy (file_id (self s))
          then seq (exists env) (\<lambda>ex. if ex then load_metadata env else ret ()) s
          else ret () s))))"

section \<open>Lifecycle operations\<close>

definition no_file_id :: exn where
  "no_file_id = ValueError ''No file_id set. Call initialize() or upload() first.''"

definition metadata_fields :: string where
  "metadata_fields = ''id, name, mimeType, size, createdTime, modifiedTime''"

definition upload :: "env \<Rightarrow> string \<Rightarrow> unit io" where
  "upload env local_path s =
     (let upload_name = (if truthy (file_name (self s)) then the (file_name (self s))
                         else path_name local_path);
          file_metadata =
            \<lparr>b_name = Some upload_name,
             b_mimeType = None,
             b_parents = (if truthy (u_folder_id (self s))
                          then Some [fmt (u_folder_id (self s))] else None),
             b_trashed = None\<rparr>
      in case fs s local_path of
           None \<Rightarrow> raise (FileNotFoundError local_path) s
         | Some media \<Rightarrow>
             seq (execute env (FilesCreate file_metadata (Some media) metadata_fields))
               (\<lambda>file.
                  seq (assign (\<lambda>h. h\<lparr>file_id := r_id file,
                                      file_name := r_name file,
                                      u_size := r_size file,
                                      u_mime_type := r_mimeType file,
                                      u_created_time := r_createdTime file,
                                      u_modified_time := r_modifiedTime file,
                                      u_url := Some (''https://drive.google.com/file/d/''
                                                     @ fmt (r_id file) @ ''/view''),
                                      u_download_url :=
                                        Some (''https://drive.google.com/uc?export=download&id=''
                                              @ fmt (r_id file))\<rparr>))
                    (\<lambda>_. json_cache_save)) s)"

definition update :: "env \<Rightarrow> string \<Rightarrow> unit io" where
  "update env local_path s =
     (if \<not> truthy (file_id (self s)) then raise no_file_id s
      else case fs s local_path of
             None \<Rightarrow> raise (FileNotFoundError local_path) s
           | Some media \<Rightarrow>
               seq (execute env (FilesUpdate (file_id (self s)) None (Some media) None None
                                   (Some metadata_fields)))
                 (\<lambda>file.
                    seq (assign (\<lambda>h. h\<lparr>u_size := r_size file,
                                        u_mime_type := r_mimeType file,
                                        u_modified_time := r_modifiedTime file\<rparr>))
                      (\<lambda>_. json_cache_save)) s)"

text \<open>
  The \<open>while not done\<close> loop of \<open>download\<close>: one request per chunk, the chunk appended
  to the local file. The provider decides when the transfer is done, so the loop takes
  fuel; running out of it (\<open>None\<close>) stands for a transfer that never reports completion.
\<close>

fun next_chunks ::
  "nat \<Rightarrow> env \<Rightarrow> string option \<Rightarrow> string \<Rightarrow> sys \<Rightarrow> ((exn + unit) \<times> sys) option" where
  "next_chunks 0 env fid local_path s = None"
| "next_chunks (Suc n) env fid local_path s =
     (case execute env (NextChunk fid) s of
        (Inl e, s1) \<Rightarrow> Some (Inl e, s1)
      | (Inr r, s1) \<Rightarrow>
          (let s2 = s1\<lparr>fs := (fs s1)(local_path \<mapsto>
                               (case fs s1 local_path of None \<Rightarrow> [] | Some old \<Rightarrow> old)
                               @ r_chunk r)\<rparr>
           in if r_done r then Some (Inr (), s2)
              else next_chunks n env fid local_path s2))"

definition download ::
  "nat \<Rightarrow> env \<Rightarrow> string \<Rightarrow> sys \<Rightarrow> ((exn + unit) \<times> sys) option" where
  "download fuel env local_path s =
     (if \<not> truthy (file_id (self s)) then Some (raise no_file_id s)
      else if \<not> drive_service (self s)
           then Some (raise (no_service (NextChunk (file_id (self s)))) s)
      else if \<not> openable env local_path then Some (raise (OSError local_path) s)
      else next_chunks fuel env (file_id (self s)) local_path
             (s\<lparr>fs := (fs s)(local_path \<mapsto> [])\<rparr>))"

definition rename :: "env \<Rightarrow> string \<Rightarrow> unit io" where
  "rename env new_name s =
     (if \<not> truthy (file_id (self s)) then raise no_file_id s
      else seq (execute env (FilesUpdate (file_id (self s))
                  (Some \<lparr>b_name = Some new_name, b_mimeType = None,
                         b_parents = None, b_trashed = None\<rparr>)
                  None None None None))
             (\<lambda>_. seq (assign (\<lambda>h. h\<lparr>file_name := Some new_name\<rparr>))
                     (\<lambda>_. json_cache_save)) s)"

text \<open>\<open>",".join(xs)\<close>.\<close>

fun join :: "string \<Rightarrow> string list \<Rightarrow> string" where
  "join sep [] = []"
| "join sep [x] = x"
| "join sep (x # y # ys) = x @ sep @ join sep (y # ys)"

definition move :: "env \<Rightarrow> string option \<Rightarrow> string option \<Rightarrow> unit io" where
  "move env folder_id folder_name s =
     (if \<not> truthy (file_id (self s)) then raise no_file_id s
      else
        seq (if truthy folder_name \<and> \<not> truthy folder_id
             then seq (find_folder_by_name env (the folder_name) None)
                    (\<lambda>found. if \<not> truthy found
                              then create_folder env (the folder_name) None
                              else ret found)
             else ret folder_id)
          (\<lambda>target_folder.
             if \<not> truthy target_folder
             then raise (ValueError ''Must provide folder_id or folder_name'')
             else
               seq (execute env (FilesGet (file_id (self s)) ''parents''))
                 (\<lambda>file.
                    seq (execute env
                           (FilesUpdate (file_id (self s)) None None target_folder
                              (Some (join '','' (case r_parents file of None \<Rightarrow> []
                                                 | Some ps \<Rightarrow> ps)))
                              (Some ''id, parents'')))
                      (\<lambda>_.
                         seq (assign (\<lambda>h. h\<lparr>u_folder_id := target_folder\<rparr>))
                           (\<lambda>_.
                              seq (if truthy folder_name
                                   then assign (\<lambda>h. h\<lparr>u_folder_name := folder_name\<rparr>)
                                   else ret ())
                                (\<lambda>_. json_cache_save))))) s)"

definition delete :: "env \<Rightarrow> bool \<Rightarrow> unit io" where
  "delete env permanent s =
     (if \<not> truthy (file_id (self s)) then raise no_file_id s
      else if permanent
           then seq (execute env (FilesDelete (file_id (self s)))) (\<lambda>_. ret ()) s
      else seq (execute env (FilesUpdate (file_id (self s))
                  (Some \<lparr>b_name = None, b_mimeType = None,
                         b_parents = None, b_trashed = Some True\<rparr>)
                  None None None None))
             (\<lambda>_. ret ()) s)"

section \<open>Access control\<close>

text \<open>The argument of \<open>share\<close> is \<open>Union[str, List[str]]\<close>.\<close>

datatype emails = Str string | Lst "string list"

fun share_each :: "env \<Rightarrow> string \<Rightarrow> string list \<Rightarrow> unit io" where
  "share_each env role [] s = ret () s"
| "share_each env role (email # rest) s =
     seq (execute env
            (PermissionsCreate (file_id (self s))
               \<lparr>b_type = ''user'', b_role = role, b_emailAddress = Some email\<rparr>
               (Some False)))
       (\<lambda>_. share_each env role rest) s"

definition share :: "env \<Rightarrow> emails \<Rightarrow> string \<Rightarrow> unit io" where
  "share env email_addresses role s =
     (if \<not> truthy (file_id (self s)) then raise no_file_id s
      else share_each env role
             (case email_addresses of Str e \<Rightarrow> [e] | Lst es \<Rightarrow> es) s)"

definition set_anyone_access :: "env \<Rightarrow> string \<Rightarrow> unit io" where
  "set_anyone_access env role s =
     (if \<not> truthy (file_id (self s)) then raise no_file_id s
      else seq (execute env
                  (PermissionsCreate (file_id (self s))
                     \<lparr>b_type = ''anyone'', b_role = role, b_emailAddress = None\<rparr>
                     None))
             (\<lambda>_. ret ()) s)"

definition list_permissions :: "env \<Rightarrow> permission list io" where
  "list_permissions env s =
     (if \<not> truthy (file_id (self s)) then raise no_file_id s
      else seq (execute env (PermissionsList (file_id (self s))
                  ''permissions(id, type, role, emailAddress)''))
             (\<lambda>results. ret (case r_permissions results of None \<Rightarrow> [] | Some ps \<Rightarrow> ps)) s)"

fun remove_first :: "env \<Rightarrow> string \<Rightarrow> permission list \<Rightarrow> unit io" where
  "remove_first env email_address [] s =
     raise (ValueError (''No permission found for '' @ email_address)) s"
| "remove_first env email_address (perm # rest) s =
     (if perm_emailAddress perm = Some email_address
      then (case perm_id perm of
              None \<Rightarrow> raise (KeyError ''id'') s
            | Some pid \<Rightarrow>
                seq (execute env (PermissionsDelete (file_id (self s)) pid)) (\<lambda>_. ret ()) s)
      else remove_first env email_address rest s)"

definition remove_permission :: "env \<Rightarrow> string \<Rightarrow> unit io" where
  "remove_permission env email_address s =
     (if \<not> truthy (file_id (self s)) then raise no_file_id s
      else seq (list_permissions env) (\<lambda>permissions. remove_first env email_address permissions) s)"

section \<open>The find-or-create policy of the spec\<close>

text \<open>
  The find-or-create policy in the spec's words (4.2, step 2): resolve the name via
  \<open>findFolderByName\<close>; if absent, create the folder via \<open>createFolder\<close>; the result is
  the id to adopt.
\<close>

definition find_or_create_spec :: "env \<Rightarrow> string \<Rightarrow> string option io" where
  "find_or_create_spec env name =
     seq (find_folder_by_name env name None)
       (\<lambda>found. if truthy found then ret found else create_folder env name None)"

section \<open>Notions used in the statements and proofs\<close>

text \<open>The three blocks of \<open>initialize\<close> after authentication, named for the proofs.\<close>

definition init_folder_block :: "env \<Rightarrow> unit io" where
  "init_folder_block env s =
     (if truthy (u_folder_name (self s)) \<and> \<not> truthy (u_folder_id (self s))
      then seq (find_folder_by_name env (the (u_folder_name (self s))) None)
             (\<lambda>found.
                seq (assign (\<lambda>h. h\<lparr>u_folder_id := found\<rparr>))
                  (\<lambda>_. if \<not> truthy found
                        then (\<lambda>s1. seq (create_folder env (the (u_folder_name (self s1))) None)
                                     (\<lambda>created. assign (\<lambda>h. h\<lparr>u_folder_id := created\<rparr>)) s1)
                        else ret ())) s
      else ret () s)"

definition init_file_block :: "env \<Rightarrow> unit io" where
  "init_file_block env s =
     (if truthy (file_name (self s)) \<and> \<not> truthy (file_id (self s))
      then seq (find_file_by_name env (the (file_name (self s))))
             (\<lambda>found. assign (\<lambda>h. h\<lparr>file_id := found\<rparr>)) s
      else ret () s)"

definition init_load_block :: "env \<Rightarrow> unit io" where
  "init_load_block env s =
     (if truthy (file_id (self s))
      then seq (exists env) (\<lambda>ex. if ex then load_metadata env else ret ()) s
      else ret () s)"

text \<open>What \<open>initialize\<close> leaves alone unless it loads metadata.\<close>

definition quiet :: "sys \<Rightarrow> sys \<Rightarrow> bool" where
  "quiet s s' \<longleftrightarrow>
     cache s' = cache s \<and> data_id (self s') = data_id (self s)
     \<and> file_name (self s') = file_name (self s) \<and> u_size (self s') = u_size (self s)
     \<and> u_mime_type (self s') = u_mime_type (self s)
     \<and> u_created_time (self s') = u_created_time (self s)
     \<and> u_modified_time (self s') = u_modified_time (self s)"

text \<open>The outcome of \<open>initialize\<close> when it loaded metadata, against the state it began in.\<close>

definition loaded :: "env \<Rightarrow> (exn + unit) \<Rightarrow> sys \<Rightarrow> sys \<Rightarrow> bool" where
  "loaded env r s s' \<longleftrightarrow>
     r = Inr () \<and> truthy (file_id (self s'))
     \<and> (\<exists>hist got. server env hist (FilesGet (file_id (self s')) ''id, trashed'') = Inr got
                    \<and> r_trashed got \<noteq> Some True)
     \<and> cache s' = (cache s)(data_id (self s') \<mapsto> self s')"

text \<open>Requests that read and create nothing: listings and gets.\<close>

definition only_reads :: "call list \<Rightarrow> bool" where
  "only_reads cs \<longleftrightarrow>
     list_all (\<lambda>c. case c of FilesList q sp fl \<Rightarrow> True | FilesGet i fl \<Rightarrow> True | _ \<Rightarrow> False) cs"




section \<open>Concrete providers and Handles\<close>

text \<open>
  The theorems below are instantiated on a small provider, a credential provider that
  accepts every key file, and freshly constructed Handles.
\<close>

definition demo_reply :: reply where
  "demo_reply =
     \<lparr>r_id = Some ''f1'', r_name = Some ''a.txt'', r_mimeType = Some ''text/plain'',
      r_size = Some ''12'', r_createdTime = Some ''t0'', r_modifiedTime = Some ''t1'',
      r_trashed = None, r_parents = Some [''p0'', ''p1''],
      r_files = Some [],
      r_permissions = Some [\<lparr>perm_id = Some ''perm1'', perm_type = Some ''user'',
                             perm_role = Some ''reader'',
                             perm_emailAddress = Some ''u@example.org''\<rparr>],
      r_chunk = ''Test content'', r_done = True\<rparr>"

text \<open>
  The provider of the instances: it finds no file or folder by name, gives a new folder
  the id \<open>fo1\<close> and a new file the id \<open>f2\<close> under the requested name, and answers
  every other request with \<open>demo_reply\<close>.
\<close>

definition demo_answer :: "call \<Rightarrow> reply" where
  "demo_answer c =
     (case c of
        FilesCreate body media fds \<Rightarrow>
          (if b_mimeType body = Some ''application/vnd.google-apps.folder''
           then demo_reply\<lparr>r_id := Some ''fo1'', r_name := b_name body\<rparr>
           else demo_reply\<lparr>r_id := Some ''f2'', r_name := b_name body\<rparr>)
      | _ \<Rightarrow> demo_reply)"

definition demo_env :: env where
  "demo_env = \<lparr>server = (\<lambda>hist c. Inr (demo_answer c)), credentials = (\<lambda>k. None),
               openable = (\<lambda>p. True)\<rparr>"

text \<open>A freshly constructed Handle with a file name and no file id.\<close>

definition fresh :: sys where
  "fresh = construct (Driverator ''key.json'' None (Some ''a.txt'') None None) False
             (\<lambda>k. None) (\<lambda>p. if p = ''local.txt'' then Some ''Test content'' else None)"

text \<open>The same Handle after \<open>initialize\<close> built the service and a file id was adopted.\<close>

definition ready :: sys where
  "ready = fresh\<lparr>self := (self fresh)\<lparr>file_id := Some ''f1'', drive_service := True\<rparr>\<rparr>"

text \<open>A Handle constructed with a folder name only.\<close>

definition folder_only :: sys where
  "folder_only = construct (Driverator ''key.json'' None None None (Some ''Archive'')) False
                   (\<lambda>k. None) (\<lambda>p. None)"

text \<open>
  A Handle constructed without any identifier, its service built, beside one readable
  local file in a directory.
\<close>

definition nameless :: sys where
  "nameless = (construct (Driverator ''key.json'' None None None None) False
                 (\<lambda>k. None) (\<lambda>p. if p = ''docs/report.txt'' then Some ''Test content'' else None))
              \<lparr>self := (Driverator ''key.json'' None None None None)\<lparr>drive_service := True\<rparr>\<rparr>"

text \<open>
  A provider on which a folder named \<open>Archive\<close> exists with the id \<open>top\<close>: it answers
  every folder listing (\<open>fields='files(id, name)'\<close>) with that folder, and every other
  request as \<open>demo_env\<close> does.
\<close>

definition shelf_answer :: "call \<Rightarrow> reply" where
  "shelf_answer c =
     (case c of
        FilesList q sp fl \<Rightarrow>
          (if fl = ''files(id, name)''
           then demo_reply\<lparr>r_files := Some [\<lparr>e_id = Some ''top'', e_name = Some ''Archive''\<rparr>]\<rparr>
           else demo_reply)
      | _ \<Rightarrow> demo_answer c)"

definition shelf_env :: env where
  "shelf_env = \<lparr>server = (\<lambda>hist c. Inr (shelf_answer c)), credentials = (\<lambda>k. None),
                openable = (\<lambda>p. True)\<rparr>"


text \<open>A Handle constructed with a file name and a folder name.\<close>

definition shelved :: sys where
  "shelved = construct (Driverator ''key.json'' None (Some ''a.txt'') None (Some ''Archive''))
               False (\<lambda>k. None) (\<lambda>p. None)"


text \<open>A provider whose every listing holds the file \<open>f1\<close>.\<close>

definition found_env :: env where
  "found_env = \<lparr>server = (\<lambda>hist c. Inr (demo_reply\<lparr>r_files :=
                    Some [\<lparr>e_id = Some ''f1'', e_name = Some ''a.txt''\<rparr>]\<rparr>)),
                credentials = (\<lambda>k. None), openable = (\<lambda>p. True)\<rparr>"


section \<open>Basic facts about issuing a request\<close>

lemmas io_defs = ret_def raise_def seq_def try_except_def assign_def json_cache_save_def

lemma execute_self: "self (snd (execute env c s)) = self s"
  by (simp add: execute_def)

lemma execute_Inr:
  "execute env c s = (Inr r, s') \<Longrightarrow>
     drive_service (self s) \<and> server env (calls s) c = Inr r \<and> s' = s\<lparr>calls := calls s @ [c]\<rparr>"
  by (auto simp: execute_def split: if_splits)

lemma execute_Inl:
  "execute env c s = (Inl e, s') \<Longrightarrow>
     (\<not> drive_service (self s) \<and> s' = s \<and> e = no_service c) \<or>
     (drive_service (self s) \<and> server env (calls s) c = Inl e \<and> s' = s\<lparr>calls := calls s @ [c]\<rparr>)"
  by (auto simp: execute_def split: if_splits)

section \<open>Precondition errors\<close>

text \<open>
  Claim C1. On a Handle whose \<open>file_id\<close> is unset (\<open>None\<close> or empty), each of update,
  download, rename, move, delete, share, set_anyone_access, list_permissions and
  remove_permission raises the precondition error \<open>ValueError("No file_id set. ...")\<close>
  and returns the state as it found it: no request was issued, nothing was written.
  For download this holds whatever the fuel, so the call returns.
\<close>

theorem no_file_id_precondition:
  assumes "\<not> truthy (file_id (self s))"
  shows "update env local_path s =
           (Inl (ValueError ''No file_id set. Call initialize() or upload() first.''), s)
       \<and> download fuel env local_path s =
           Some (Inl (ValueError ''No file_id set. Call initialize() or upload() first.''), s)
       \<and> rename env new_name s =
           (Inl (ValueError ''No file_id set. Call initialize() or upload() first.''), s)
       \<and> move env folder_id folder_name s =
           (Inl (ValueError ''No file_id set. Call initialize() or upload() first.''), s)
       \<and> delete env permanent s =
           (Inl (ValueError ''No file_id set. Call initialize() or upload() first.''), s)
       \<and> share env email_addresses role s =
           (Inl (ValueError ''No file_id set. Call initialize() or upload() first.''), s)
       \<and> set_anyone_access env role s =
           (Inl (ValueError ''No file_id set. Call initialize() or upload() first.''), s)
       \<and> list_permissions env s =
           (Inl (ValueError ''No file_id set. Call initialize() or upload() first.''), s)
       \<and> remove_permission env email_address s =
           (Inl (ValueError ''No file_id set. Call initialize() or upload() first.''), s)"
  using assms
  by (simp add: update_def download_def rename_def move_def delete_def share_def
      set_anyone_access_def list_permissions_def remove_permission_def raise_def no_file_id_def)

theorem no_file_id_precondition_witness:
  "\<not> truthy (file_id (self fresh))
   \<and> update demo_env ''local.txt'' fresh =
       (Inl (ValueError ''No file_id set. Call initialize() or upload() first.''), fresh)
   \<and> download 0 demo_env ''local.txt'' fresh =
       Some (Inl (ValueError ''No file_id set. Call initialize() or upload() first.''), fresh)
   \<and> move demo_env (Some ''p9'') None fresh =
       (Inl (ValueError ''No file_id set. Call initialize() or upload() first.''), fresh)
   \<and> remove_permission demo_env ''u@example.org'' fresh =
       (Inl (ValueError ''No file_id set. Call initialize() or upload() first.''), fresh)"
proof -
  have h: "\<not> truthy (file_id (self fresh))"
    by (simp add: fresh_def construct_def Driverator_def truthy_def)
  from no_file_id_precondition [OF h, where env = demo_env and local_path = "''local.txt''"
      and fuel = 0 and folder_id = "Some ''p9''" and folder_name = None
      and email_address = "''u@example.org''"]
  show ?thesis using h by simp
qed

section \<open>The cache identity\<close>

text \<open>
  Claim C10. The cache identity fixed at construction is \<open>driverator_\<close> followed by the
  file name if one was supplied (truthy), otherwise the file id if supplied, otherwise the
  literal \<open>file\<close>. Hence two Handles constructed with the same file name have the same
  cache identity, whatever their file ids, folders and key files.
\<close>

theorem cache_identity_precedence:
  "data_id (Driverator saf fid fname foid foname) =
     ''driverator_'' @ (if truthy fname then the fname
                         else if truthy fid then the fid else ''file'')
   \<and> (truthy fname \<longrightarrow>
        data_id (Driverator saf fid fname foid foname) =
        data_id (Driverator saf' fid' fname foid' foname'))"
  by (auto simp: Driverator_def py_or_def fmt_def truthy_def split: option.splits)

theorem cache_identity_precedence_witness:
  "truthy (Some ''a.txt'')
   \<and> data_id (Driverator ''key.json'' (Some ''id1'') (Some ''a.txt'') None None) = ''driverator_a.txt''
   \<and> data_id (Driverator ''key.json'' (Some ''id1'') (Some ''a.txt'') None None) =
     data_id (Driverator ''other.json'' (Some ''id2'') (Some ''a.txt'') (Some ''fo'') None)"
  using cache_identity_precedence [of "''key.json''" "Some ''id1''" "Some ''a.txt''" None None
      "''other.json''" "Some ''id2''" "Some ''fo''" None]
  by (auto simp: truthy_def)

section \<open>exists\<close>

text \<open>
  Claim C5. \<open>exists\<close> always returns a boolean and never an exception. With \<open>file_id\<close>
  unset it returns \<open>False\<close> and issues nothing. With \<open>file_id\<close> set it issues one
  \<open>files().get(fields='id, trashed')\<close> and returns \<open>True\<close> exactly when the provider
  answers and the answer is not marked trashed; a provider error gives \<open>False\<close>, and so
  does a service that was never built.
\<close>

theorem exists_never_raises:
  "(\<exists>b s'. exists env s = (Inr b, s'))
   \<and> (\<not> truthy (file_id (self s)) \<longrightarrow> exists env s = (Inr False, s))
   \<and> (truthy (file_id (self s)) \<and> \<not> drive_service (self s) \<longrightarrow> exists env s = (Inr False, s))
   \<and> (truthy (file_id (self s)) \<and> drive_service (self s) \<longrightarrow>
        exists env s =
          (Inr (case server env (calls s) (FilesGet (file_id (self s)) ''id, trashed'') of
                  Inl e \<Rightarrow> False
                | Inr file \<Rightarrow> r_trashed file \<noteq> Some True),
           s\<lparr>calls := calls s @ [FilesGet (file_id (self s)) ''id, trashed'']\<rparr>))"
  by (auto simp: exists_def io_defs execute_def split: sum.splits option.splits prod.splits)

theorem exists_never_raises_witness:
  "\<not> truthy (file_id (self fresh)) \<and> exists demo_env fresh = (Inr False, fresh)
   \<and> truthy (file_id (self ready)) \<and> drive_service (self ready)
   \<and> exists demo_env ready =
       (Inr True, ready\<lparr>calls := [FilesGet (Some ''f1'') ''id, trashed'']\<rparr>)"
proof -
  have h1: "\<not> truthy (file_id (self fresh))"
    by (simp add: fresh_def construct_def Driverator_def truthy_def)
  have h2: "truthy (file_id (self ready)) \<and> drive_service (self ready)"
    by (simp add: ready_def truthy_def)
  have c: "calls ready = []" "file_id (self ready) = Some ''f1''"
    by (simp_all add: ready_def fresh_def construct_def)
  from exists_never_raises [of demo_env fresh] h1
  have a: "exists demo_env fresh = (Inr False, fresh)" by blast
  from exists_never_raises [of demo_env ready] h2
  have b: "exists demo_env ready =
          (Inr (case server demo_env (calls ready) (FilesGet (file_id (self ready)) ''id, trashed'') of
                  Inl e \<Rightarrow> False
                | Inr file \<Rightarrow> r_trashed file \<noteq> Some True),
           ready\<lparr>calls := calls ready @ [FilesGet (file_id (self ready)) ''id, trashed'']\<rparr>)"
    by blast
  from a b h1 h2 show ?thesis
    by (simp add: c demo_env_def demo_answer_def demo_reply_def)
qed

lemma execute_frame:
  "execute env c s = (r, s') \<Longrightarrow> self s' = self s \<and> cache s' = cache s \<and> fs s' = fs s"
  by (auto simp: execute_def split: if_splits)

section \<open>share\<close>

lemma share_each_frame:
  "share_each env role es s = (r, s') \<Longrightarrow> self s' = self s \<and> cache s' = cache s \<and> fs s' = fs s"
proof (induction es arbitrary: s)
  case Nil
  then show ?case by (simp add: ret_def)
next
  case (Cons e es)
  show ?case
  proof (cases "execute env (PermissionsCreate (file_id (self s))
           \<lparr>b_type = ''user'', b_role = role, b_emailAddress = Some e\<rparr> (Some False)) s")
    case (Pair x s1)
    note fr = execute_frame[OF Pair]
    show ?thesis
    proof (cases x)
      case (Inl err)
      with Pair Cons.prems fr show ?thesis by (simp add: seq_def)
    next
      case (Inr rep)
      with Pair Cons.prems have "share_each env role es s1 = (r, s')" by (simp add: seq_def)
      from Cons.IH[OF this] fr show ?thesis by simp
    qed
  qed
qed

lemma share_each_calls:
  "share_each env role es s = (Inr (), s') \<Longrightarrow>
     calls s' = calls s @ map (\<lambda>e. PermissionsCreate (file_id (self s))
                   \<lparr>b_type = ''user'', b_role = role, b_emailAddress = Some e\<rparr> (Some False)) es"
proof (induction es arbitrary: s)
  case Nil
  then show ?case by (simp add: ret_def)
next
  case (Cons e es)
  from Cons.prems obtain r s1 where
    ex: "execute env (PermissionsCreate (file_id (self s))
           \<lparr>b_type = ''user'', b_role = role, b_emailAddress = Some e\<rparr> (Some False)) s = (Inr r, s1)"
    and rest: "share_each env role es s1 = (Inr (), s')"
    by (auto simp: seq_def split: prod.splits sum.splits)
  from execute_Inr[OF ex] have s1: "s1 = s\<lparr>calls := calls s @ [PermissionsCreate (file_id (self s))
           \<lparr>b_type = ''user'', b_role = role, b_emailAddress = Some e\<rparr> (Some False)]\<rparr>" by simp
  from Cons.IH[OF rest] s1 show ?case by simp
qed

text \<open>
  Claim C9. \<open>share\<close> with a single address string is \<open>share\<close> with the one-element
  list of that string: same result, same final state. A successful \<open>share\<close> has issued
  exactly one \<open>permissions().create\<close> per address, in the order given, each with type
  \<open>user\<close>, the given role and \<open>sendNotificationEmail=False\<close>, and has left the Handle
  as it was. With the service built, the single-address call issues exactly that one
  request whether or not the provider accepts it.
\<close>

theorem share_single_is_singleton_list:
  "share env (Str e) role s = share env (Lst [e]) role s
   \<and> (share env email_addresses role s = (Inr (), s') \<longrightarrow>
        calls s' = calls s @ map (\<lambda>e. PermissionsCreate (file_id (self s))
                     \<lparr>b_type = ''user'', b_role = role, b_emailAddress = Some e\<rparr> (Some False))
                     (case email_addresses of Str e \<Rightarrow> [e] | Lst es \<Rightarrow> es)
        \<and> self s' = self s)
   \<and> (truthy (file_id (self s)) \<and> drive_service (self s) \<longrightarrow>
        calls (snd (share env (Str e) role s)) =
          calls s @ [PermissionsCreate (file_id (self s))
                     \<lparr>b_type = ''user'', b_role = role, b_emailAddress = Some e\<rparr> (Some False)])"
proof (intro conjI impI)
  show "share env (Str e) role s = share env (Lst [e]) role s"
    by (simp add: share_def)
next
  assume a: "share env email_addresses role s = (Inr (), s')"
  then have b: "share_each env role (case email_addresses of Str e \<Rightarrow> [e] | Lst es \<Rightarrow> es) s = (Inr (), s')"
    by (auto simp: share_def raise_def split: if_splits)
  from share_each_calls[OF b]
  show "calls s' = calls s @ map (\<lambda>e. PermissionsCreate (file_id (self s))
                     \<lparr>b_type = ''user'', b_role = role, b_emailAddress = Some e\<rparr> (Some False))
                     (case email_addresses of Str e \<Rightarrow> [e] | Lst es \<Rightarrow> es)" .
  from share_each_frame[OF b] show "self s' = self s" by simp
next
  assume "truthy (file_id (self s)) \<and> drive_service (self s)"
  then show "calls (snd (share env (Str e) role s)) =
          calls s @ [PermissionsCreate (file_id (self s))
                     \<lparr>b_type = ''user'', b_role = role, b_emailAddress = Some e\<rparr> (Some False)]"
    by (auto simp: share_def io_defs execute_def split: sum.splits prod.splits)
qed

lemma ready_simps:
  "file_id (self ready) = Some ''f1''" "drive_service (self ready)" "calls ready = []"
  "cache ready = (\<lambda>k. None)" "data_id (self ready) = ''driverator_a.txt''"
  "file_name (self ready) = Some ''a.txt''" "u_folder_id (self ready) = None"
  "fs ready ''local.txt'' = Some ''Test content''"
  by (simp_all add: ready_def fresh_def construct_def Driverator_def py_or_def fmt_def truthy_def)

lemma demo_server: "server demo_env hist c = Inr (demo_answer c)"
  by (simp add: demo_env_def)

lemma demo_answer_simps:
  "demo_answer (FilesGet a b) = demo_reply"
  "demo_answer (FilesList q sp fl) = demo_reply"
  "demo_answer (FilesUpdate i bo me ad re fi) = demo_reply"
  "demo_answer (FilesDelete i) = demo_reply"
  "demo_answer (NextChunk i) = demo_reply"
  "demo_answer (PermissionsCreate i pb no) = demo_reply"
  "demo_answer (PermissionsList i f) = demo_reply"
  "demo_answer (PermissionsDelete i p) = demo_reply"
  "demo_answer (FilesCreate body media fds) =
     (if b_mimeType body = Some ''application/vnd.google-apps.folder''
      then demo_reply\<lparr>r_id := Some ''fo1'', r_name := b_name body\<rparr>
      else demo_reply\<lparr>r_id := Some ''f2'', r_name := b_name body\<rparr>)"
  by (simp_all add: demo_answer_def)

theorem share_single_is_singleton_list_witness:
  "share demo_env (Lst [''u@example.org'', ''v@example.org'']) ''writer'' ready =
     (Inr (), ready\<lparr>calls :=
        [PermissionsCreate (Some ''f1'')
           \<lparr>b_type = ''user'', b_role = ''writer'', b_emailAddress = Some ''u@example.org''\<rparr> (Some False),
         PermissionsCreate (Some ''f1'')
           \<lparr>b_type = ''user'', b_role = ''writer'', b_emailAddress = Some ''v@example.org''\<rparr> (Some False)]\<rparr>)
   \<and> share demo_env (Str ''u@example.org'') ''writer'' ready =
       share demo_env (Lst [''u@example.org'']) ''writer'' ready
   \<and> truthy (file_id (self ready)) \<and> drive_service (self ready)
   \<and> calls (snd (share demo_env (Str ''u@example.org'') ''writer'' ready)) =
       [PermissionsCreate (Some ''f1'')
           \<lparr>b_type = ''user'', b_role = ''writer'', b_emailAddress = Some ''u@example.org''\<rparr> (Some False)]"
proof -
  have ev: "share demo_env (Lst [''u@example.org'', ''v@example.org'']) ''writer'' ready =
     (Inr (), ready\<lparr>calls :=
        [PermissionsCreate (Some ''f1'')
           \<lparr>b_type = ''user'', b_role = ''writer'', b_emailAddress = Some ''u@example.org''\<rparr> (Some False),
         PermissionsCreate (Some ''f1'')
           \<lparr>b_type = ''user'', b_role = ''writer'', b_emailAddress = Some ''v@example.org''\<rparr> (Some False)]\<rparr>)"
    by (simp add: share_def io_defs execute_def ready_simps demo_server demo_answer_simps truthy_def)
  have h: "truthy (file_id (self ready)) \<and> drive_service (self ready)"
    by (simp add: ready_simps truthy_def)
  note T = share_single_is_singleton_list [of demo_env "''u@example.org''" "''writer''" ready
      "Lst [''u@example.org'', ''v@example.org'']" "snd (share demo_env (Lst [''u@example.org'', ''v@example.org'']) ''writer'' ready)"]
  from T have a: "share demo_env (Str ''u@example.org'') ''writer'' ready =
       share demo_env (Lst [''u@example.org'']) ''writer'' ready"
    by (rule conjunct1)
  from T [THEN conjunct2, THEN conjunct2, THEN mp, OF h]
  have c: "calls (snd (share demo_env (Str ''u@example.org'') ''writer'' ready)) =
       [PermissionsCreate (Some ''f1'')
           \<lparr>b_type = ''user'', b_role = ''writer'', b_emailAddress = Some ''u@example.org''\<rparr> (Some False)]"
    by (simp add: ready_simps)
  from ev a h c show ?thesis by blast
qed

lemma seq_InrE:
  assumes "seq m f s = (Inr y, s')"
  obtains x s1 where "m s = (Inr x, s1)" and "f x s1 = (Inr y, s')"
  using assms by (auto simp: seq_def split: prod.splits sum.splits)

lemma list_permissions_Inr:
  "list_permissions env s = (Inr perms, s1) \<Longrightarrow>
     truthy (file_id (self s)) \<and> drive_service (self s)
     \<and> s1 = s\<lparr>calls := calls s @ [PermissionsList (file_id (self s))
                                     ''permissions(id, type, role, emailAddress)'']\<rparr>"
  by (auto simp: list_permissions_def raise_def ret_def seq_def
      split: if_splits prod.splits sum.splits dest!: execute_Inr)

lemma remove_first_none:
  "find (\<lambda>p. perm_emailAddress p = Some email_address) perms = None \<Longrightarrow>
     remove_first env email_address perms s =
       (Inl (ValueError (''No permission found for '' @ email_address)), s)"
  by (induction perms) (auto simp: raise_def)

lemma remove_first_some:
  "find (\<lambda>p. perm_emailAddress p = Some email_address) perms = Some perm \<Longrightarrow>
   perm_id perm = Some pid \<Longrightarrow>
     remove_first env email_address perms s =
       seq (execute env (PermissionsDelete (file_id (self s)) pid)) (\<lambda>_. ret ()) s"
  by (induction perms) (auto split: if_splits)

lemma remove_first_frame:
  "remove_first env email_address perms s = (r, s') \<Longrightarrow>
     self s' = self s \<and> cache s' = cache s \<and> fs s' = fs s"
proof (induction perms)
  case Nil
  then show ?case by (simp add: raise_def)
next
  case (Cons p ps)
  then show ?case
    by (auto simp: raise_def seq_def ret_def execute_def split: if_splits option.splits sum.splits)
qed

section \<open>remove_permission\<close>

text \<open>
  Claim C8. On a Handle with \<open>file_id\<close> set, \<open>remove_permission\<close> first lists the
  permissions (one \<open>permissions().list\<close>). If no listed entry carries the given address
  it raises \<open>ValueError("No permission found for ...")\<close> and the list request is the only
  one issued: no delete is sent. Otherwise it issues one \<open>permissions().delete\<close> for the
  id of the first entry that carries the address, and returns what that request returns.
\<close>

theorem remove_permission_lookup:
  assumes "truthy (file_id (self s))"
      and "list_permissions env s = (Inr perms, s1)"
  shows "s1 = s\<lparr>calls := calls s @ [PermissionsList (file_id (self s))
                                     ''permissions(id, type, role, emailAddress)'']\<rparr>
     \<and> (find (\<lambda>p. perm_emailAddress p = Some email_address) perms = None \<longrightarrow>
          remove_permission env email_address s =
            (Inl (ValueError (''No permission found for '' @ email_address)), s1))
     \<and> (find (\<lambda>p. perm_emailAddress p = Some email_address) perms = Some perm
          \<and> perm_id perm = Some pid \<longrightarrow>
          remove_permission env email_address s =
            (case server env (calls s1) (PermissionsDelete (file_id (self s)) pid) of
               Inl e \<Rightarrow> Inl e | Inr _ \<Rightarrow> Inr (),
             s1\<lparr>calls := calls s1 @ [PermissionsDelete (file_id (self s)) pid]\<rparr>))"
proof (intro conjI impI)
  note lp = list_permissions_Inr[OF assms(2)]
  from lp show s1: "s1 = s\<lparr>calls := calls s @ [PermissionsList (file_id (self s))
                                     ''permissions(id, type, role, emailAddress)'']\<rparr>"
    by simp
  have rp: "remove_permission env email_address s = remove_first env email_address perms s1"
    using assms by (simp add: remove_permission_def seq_def)
  {
    assume "find (\<lambda>p. perm_emailAddress p = Some email_address) perms = None"
    from remove_first_none[OF this] rp
    show "remove_permission env email_address s =
            (Inl (ValueError (''No permission found for '' @ email_address)), s1)"
      by simp
  }
  {
    assume "find (\<lambda>p. perm_emailAddress p = Some email_address) perms = Some perm
          \<and> perm_id perm = Some pid"
    then have "remove_first env email_address perms s1 =
       seq (execute env (PermissionsDelete (file_id (self s1)) pid)) (\<lambda>_. ret ()) s1"
      using remove_first_some by blast
    moreover have "drive_service (self s1)" "self s1 = self s" using lp by simp_all
    ultimately show "remove_permission env email_address s =
            (case server env (calls s1) (PermissionsDelete (file_id (self s)) pid) of
               Inl e \<Rightarrow> Inl e | Inr _ \<Rightarrow> Inr (),
             s1\<lparr>calls := calls s1 @ [PermissionsDelete (file_id (self s)) pid]\<rparr>)"
      using rp by (simp add: seq_def ret_def execute_def split: sum.splits)
  }
qed

theorem remove_permission_lookup_witness:
  "truthy (file_id (self ready))
   \<and> list_permissions demo_env ready =
       (Inr [\<lparr>perm_id = Some ''perm1'', perm_type = Some ''user'', perm_role = Some ''reader'',
              perm_emailAddress = Some ''u@example.org''\<rparr>],
        ready\<lparr>calls := [PermissionsList (Some ''f1'') ''permissions(id, type, role, emailAddress)'']\<rparr>)
   \<and> remove_permission demo_env ''nobody@example.org'' ready =
       (Inl (ValueError ''No permission found for nobody@example.org''),
        ready\<lparr>calls := [PermissionsList (Some ''f1'') ''permissions(id, type, role, emailAddress)'']\<rparr>)
   \<and> remove_permission demo_env ''u@example.org'' ready =
       (Inr (),
        ready\<lparr>calls := [PermissionsList (Some ''f1'') ''permissions(id, type, role, emailAddress)'',
                         PermissionsDelete (Some ''f1'') ''perm1'']\<rparr>)"
proof -
  let ?perm = "\<lparr>perm_id = Some ''perm1'', perm_type = Some ''user'', perm_role = Some ''reader'',
              perm_emailAddress = Some ''u@example.org''\<rparr>"
  let ?s1 = "ready\<lparr>calls := [PermissionsList (Some ''f1'') ''permissions(id, type, role, emailAddress)'']\<rparr>"
  have h: "truthy (file_id (self ready))" by (simp add: ready_simps truthy_def)
  have l: "list_permissions demo_env ready = (Inr [?perm], ?s1)"
    by (simp add: list_permissions_def io_defs execute_def ready_simps demo_server demo_answer_simps demo_reply_def
        truthy_def)
  note T = remove_permission_lookup [OF h l]
  have a: "remove_permission demo_env ''nobody@example.org'' ready =
       (Inl (ValueError ''No permission found for nobody@example.org''), ?s1)"
    using T [of "''nobody@example.org''", THEN conjunct2, THEN conjunct1] by simp
  have b: "remove_permission demo_env ''u@example.org'' ready =
       (Inr (), ready\<lparr>calls := [PermissionsList (Some ''f1'') ''permissions(id, type, role, emailAddress)'',
                         PermissionsDelete (Some ''f1'') ''perm1'']\<rparr>)"
    using T [of "''u@example.org''" ?perm "''perm1''", THEN conjunct2, THEN conjunct2]
    by (simp add: ready_simps demo_server demo_answer_simps)
  from h l a b show ?thesis by blast
qed

lemma find_folder_by_name_frame:
  "find_folder_by_name env name parent s = (r, s') \<Longrightarrow>
     self s' = self s \<and> cache s' = cache s \<and> fs s' = fs s"
  by (auto simp: find_folder_by_name_def Let_def seq_def ret_def raise_def execute_def
      split: if_splits sum.splits list.splits option.splits)

lemma create_folder_frame:
  "create_folder env name parent s = (r, s') \<Longrightarrow>
     self s' = self s \<and> cache s' = cache s \<and> fs s' = fs s"
  by (auto simp: create_folder_def Let_def seq_def ret_def raise_def execute_def
      split: if_splits sum.splits list.splits option.splits)

lemma saved_last:
  "seq m (\<lambda>_. json_cache_save) s = (Inr (), s') \<Longrightarrow> cache s' (data_id (self s')) = Some (self s')"
  by (auto simp: seq_def json_cache_save_def split: prod.splits sum.splits)

lemma upload_saved:
  "upload env local_path s = (Inr (), s') \<Longrightarrow> cache s' (data_id (self s')) = Some (self s')"
  by (auto simp: upload_def Let_def raise_def split: option.splits elim!: seq_InrE dest!: saved_last)

lemma update_saved:
  "update env local_path s = (Inr (), s') \<Longrightarrow> cache s' (data_id (self s')) = Some (self s')"
  by (auto simp: update_def raise_def split: option.splits if_splits elim!: seq_InrE dest!: saved_last)

lemma rename_saved:
  "rename env new_name s = (Inr (), s') \<Longrightarrow> cache s' (data_id (self s')) = Some (self s')"
  by (auto simp: rename_def raise_def split: if_splits elim!: seq_InrE dest!: saved_last)

lemma move_saved:
  assumes "move env folder_id folder_name s = (Inr (), s')"
  shows "cache s' (data_id (self s')) = Some (self s')"
proof -
  from assms have fid: "truthy (file_id (self s))"
    by (auto simp: move_def raise_def split: if_splits)
  with assms obtain t s1 where
    rest: "(if \<not> truthy t
             then raise (ValueError ''Must provide folder_id or folder_name'')
             else
               seq (execute env (FilesGet (file_id (self s)) ''parents''))
                 (\<lambda>file.
                    seq (execute env
                           (FilesUpdate (file_id (self s)) None None t
                              (Some (join '','' (case r_parents file of None \<Rightarrow> []
                                                 | Some ps \<Rightarrow> ps)))
                              (Some ''id, parents'')))
                      (\<lambda>_.
                         seq (assign (\<lambda>h. h\<lparr>u_folder_id := t\<rparr>))
                           (\<lambda>_.
                              seq (if truthy folder_name
                                   then assign (\<lambda>h. h\<lparr>u_folder_name := folder_name\<rparr>)
                                   else ret ())
                                (\<lambda>_. json_cache_save))))) s1 = (Inr (), s')"
    by (auto simp: move_def elim!: seq_InrE)
  then show ?thesis
    by (auto simp: raise_def split: if_splits elim!: seq_InrE dest!: saved_last)
qed

lemma delete_frame:
  "delete env permanent s = (r, s') \<Longrightarrow> self s' = self s \<and> cache s' = cache s"
  by (auto simp: delete_def raise_def seq_def ret_def execute_def split: if_splits sum.splits)

lemma share_frame:
  "share env email_addresses role s = (r, s') \<Longrightarrow> self s' = self s \<and> cache s' = cache s"
  by (auto simp: share_def raise_def split: if_splits dest: share_each_frame)

lemma set_anyone_access_frame:
  "set_anyone_access env role s = (r, s') \<Longrightarrow> self s' = self s \<and> cache s' = cache s"
  by (auto simp: set_anyone_access_def raise_def seq_def ret_def execute_def
      split: if_splits sum.splits)

lemma list_permissions_frame:
  "list_permissions env s = (r, s') \<Longrightarrow> self s' = self s \<and> cache s' = cache s \<and> fs s' = fs s"
  by (auto simp: list_permissions_def raise_def seq_def ret_def execute_def
      split: if_splits sum.splits)

lemma remove_permission_frame:
  assumes "remove_permission env email_address s = (r, s')"
  shows "self s' = self s \<and> cache s' = cache s"
proof (cases "truthy (file_id (self s))")
  case False
  with assms show ?thesis by (simp add: remove_permission_def raise_def)
next
  case True
  obtain x s1 where lp: "list_permissions env s = (x, s1)" by (cases "list_permissions env s")
  note f1 = list_permissions_frame[OF lp]
  show ?thesis
  proof (cases x)
    case (Inl e)
    with assms True lp f1 show ?thesis by (simp add: remove_permission_def seq_def)
  next
    case (Inr perms)
    with assms True lp have "remove_first env email_address perms s1 = (r, s')"
      by (simp add: remove_permission_def seq_def)
    from remove_first_frame[OF this] f1 show ?thesis by simp
  qed
qed

section \<open>Which operations write the cache\<close>

text \<open>
  Claim C4, as the code has it. After a successful upload, update, rename or move the
  cache entry under the Handle's cache identity is the Handle's field set as the
  operation left it. delete, share, set_anyone_access and remove_permission assign no
  attribute and never write the cache, whether they succeed or raise.
\<close>

theorem cache_written_by_field_updates:
  "(upload env local_path s = (Inr (), s') \<longrightarrow> cache s' (data_id (self s')) = Some (self s'))
   \<and> (update env local_path s = (Inr (), s') \<longrightarrow> cache s' (data_id (self s')) = Some (self s'))
   \<and> (rename env new_name s = (Inr (), s') \<longrightarrow> cache s' (data_id (self s')) = Some (self s'))
   \<and> (move env folder_id folder_name s = (Inr (), s') \<longrightarrow>
        cache s' (data_id (self s')) = Some (self s'))
   \<and> (delete env permanent s = (r, s') \<longrightarrow> self s' = self s \<and> cache s' = cache s)
   \<and> (share env email_addresses role s = (r, s') \<longrightarrow> self s' = self s \<and> cache s' = cache s)
   \<and> (set_anyone_access env role s = (r, s') \<longrightarrow> self s' = self s \<and> cache s' = cache s)
   \<and> (remove_permission env email_address s = (r, s') \<longrightarrow>
        self s' = self s \<and> cache s' = cache s)"
  by (intro conjI impI)
    (simp_all add: upload_saved update_saved rename_saved move_saved delete_frame share_frame
      set_anyone_access_frame remove_permission_frame)

text \<open>
  The claim as written fails for delete: a successful soft delete on a Handle whose cache
  entry was never written leaves the entry absent, so it does not mirror the Handle.
\<close>

theorem delete_writes_no_cache_counterexample:
  "fst (delete demo_env False ready) = Inr ()
   \<and> cache (snd (delete demo_env False ready))
        (data_id (self (snd (delete demo_env False ready))))
      \<noteq> Some (self (snd (delete demo_env False ready)))"
  by (simp add: delete_def io_defs execute_def ready_simps demo_server demo_answer_simps truthy_def)

theorem cache_written_by_field_updates_witness:
  "rename demo_env ''b.txt'' ready =
     (Inr (), ready\<lparr>self := (self ready)\<lparr>file_name := Some ''b.txt''\<rparr>,
                    calls := [FilesUpdate (Some ''f1'')
                                (Some \<lparr>b_name = Some ''b.txt'', b_mimeType = None,
                                       b_parents = None, b_trashed = None\<rparr>)
                                None None None None],
                    cache := (cache ready)(''driverator_a.txt'' \<mapsto>
                                (self ready)\<lparr>file_name := Some ''b.txt''\<rparr>)\<rparr>)
   \<and> cache (snd (rename demo_env ''b.txt'' ready))
        (data_id (self (snd (rename demo_env ''b.txt'' ready))))
      = Some (self (snd (rename demo_env ''b.txt'' ready)))
   \<and> self (snd (delete demo_env True ready)) = self ready
   \<and> cache (snd (delete demo_env True ready)) = cache ready"
proof -
  have ev: "rename demo_env ''b.txt'' ready =
     (Inr (), ready\<lparr>self := (self ready)\<lparr>file_name := Some ''b.txt''\<rparr>,
                    calls := [FilesUpdate (Some ''f1'')
                                (Some \<lparr>b_name = Some ''b.txt'', b_mimeType = None,
                                       b_parents = None, b_trashed = None\<rparr>)
                                None None None None],
                    cache := (cache ready)(''driverator_a.txt'' \<mapsto>
                                (self ready)\<lparr>file_name := Some ''b.txt''\<rparr>)\<rparr>)"
    by (simp add: rename_def io_defs execute_def ready_simps demo_server demo_answer_simps truthy_def)
  note T = cache_written_by_field_updates [where env = demo_env and s = ready
      and new_name = "''b.txt''" and s' = "snd (rename demo_env ''b.txt'' ready)"]
  have a: "cache (snd (rename demo_env ''b.txt'' ready))
        (data_id (self (snd (rename demo_env ''b.txt'' ready))))
      = Some (self (snd (rename demo_env ''b.txt'' ready)))"
    using T [THEN conjunct2, THEN conjunct2, THEN conjunct1] ev by simp
  note D = cache_written_by_field_updates [where env = demo_env and s = ready
      and permanent = True and r = "fst (delete demo_env True ready)"
      and s' = "snd (delete demo_env True ready)"]
  have b: "self (snd (delete demo_env True ready)) = self ready
     \<and> cache (snd (delete demo_env True ready)) = cache ready"
    using D [THEN conjunct2, THEN conjunct2, THEN conjunct2, THEN conjunct2, THEN conjunct1]
    by simp
  from ev a b show ?thesis by blast
qed

section \<open>upload\<close>

lemma split_on_nonempty: "split_on d xs \<noteq> []"
  by (induction xs) (auto split: list.splits)

lemma split_on_append: "split_on d (xs @ d # ys) = split_on d xs @ split_on d ys"
proof (induction xs)
  case Nil
  show ?case by simp
next
  case (Cons x xs)
  obtain w ws where w: "split_on d xs = w # ws"
    using split_on_nonempty[of d xs] by (cases "split_on d xs") auto
  with Cons show ?case by simp
qed

lemma split_on_none: "d \<notin> set xs \<Longrightarrow> split_on d xs = [xs]"
  by (induction xs) auto

lemma path_name_base:
  assumes "CHR ''/'' \<notin> set base" "base \<noteq> []" "base \<noteq> ''.''"
  shows "path_name (dir @ ''/'' @ base) = base" and "path_name base = base"
proof -
  have "split_on (CHR ''/'') (dir @ ''/'' @ base) = split_on (CHR ''/'') dir @ [base]"
    using split_on_append[of "CHR ''/''" dir base] split_on_none[OF assms(1)] by simp
  then have "filter (\<lambda>c. c \<noteq> [] \<and> c \<noteq> ''.'') (split_on (CHR ''/'') (dir @ ''/'' @ base))
      = filter (\<lambda>c. c \<noteq> [] \<and> c \<noteq> ''.'') (split_on (CHR ''/'') dir) @ [base]"
    using assms by simp
  moreover have "\<And>l::string list. (case l of [] \<Rightarrow> [] | c # cs \<Rightarrow> last (c # cs))
      = (if l = [] then [] else last l)"
    by (simp split: list.splits)
  ultimately show "path_name (dir @ ''/'' @ base) = base"
    by (simp add: path_name_def)
  show "path_name base = base"
    using split_on_none[OF assms(1)] assms by (simp add: path_name_def)
qed

lemma path_name_examples:
  "path_name ''docs/report.txt'' = ''report.txt''"
  "path_name ''report.txt'' = ''report.txt''"
  "path_name ''docs/archive/'' = ''archive''"
  by (simp_all add: path_name_def)

text \<open>
  Claim C6. For a readable local path, \<open>upload\<close> on a Handle whose service is built
  issues exactly one request, a \<open>files().create\<close> carrying the file's content, whose
  name is the Handle's file name when that is set and the base name of the local path
  otherwise, under the Handle's folder if it has one. It does so whether or not
  \<open>file_id\<close> is already set: the request is never an update. Whenever the upload
  returns normally, that create is the one request it issued, \<open>file_id\<close>, the file name,
  size, MIME type, created and modified times are those of the provider's response, both
  URL attributes are rebuilt from the new id, and the cache entry is the resulting field
  set. The base name of a path is its last component: \<open>dir/base\<close> and \<open>base\<close> both
  have the base name \<open>base\<close>, for any directory part.
\<close>

theorem upload_always_creates:
  assumes "fs s local_path = Some media"
  shows "(drive_service (self s) \<longrightarrow>
          calls (snd (upload env local_path s)) =
            calls s @ [FilesCreate
                         \<lparr>b_name = Some (if truthy (file_name (self s)) then the (file_name (self s))
                                         else path_name local_path),
                          b_mimeType = None,
                          b_parents = (if truthy (u_folder_id (self s))
                                       then Some [the (u_folder_id (self s))] else None),
                          b_trashed = None\<rparr>
                         (Some media) ''id, name, mimeType, size, createdTime, modifiedTime''])
     \<and> (upload env local_path s = (Inr (), s') \<longrightarrow>
          calls s' = calls s @ [FilesCreate
                         \<lparr>b_name = Some (if truthy (file_name (self s)) then the (file_name (self s))
                                         else path_name local_path),
                          b_mimeType = None,
                          b_parents = (if truthy (u_folder_id (self s))
                                       then Some [the (u_folder_id (self s))] else None),
                          b_trashed = None\<rparr>
                         (Some media) ''id, name, mimeType, size, createdTime, modifiedTime'']
          \<and> (\<exists>file. server env (calls s)
                     (FilesCreate
                         \<lparr>b_name = Some (if truthy (file_name (self s)) then the (file_name (self s))
                                         else path_name local_path),
                          b_mimeType = None,
                          b_parents = (if truthy (u_folder_id (self s))
                                       then Some [the (u_folder_id (self s))] else None),
                          b_trashed = None\<rparr>
                         (Some media) ''id, name, mimeType, size, createdTime, modifiedTime'')
                   = Inr file
               \<and> file_id (self s') = r_id file
               \<and> file_name (self s') = r_name file
               \<and> u_size (self s') = r_size file
               \<and> u_mime_type (self s') = r_mimeType file
               \<and> u_created_time (self s') = r_createdTime file
               \<and> u_modified_time (self s') = r_modifiedTime file
               \<and> u_url (self s') =
                   Some (''https://drive.google.com/file/d/'' @ fmt (r_id file) @ ''/view'')
               \<and> u_download_url (self s') =
                   Some (''https://drive.google.com/uc?export=download&id='' @ fmt (r_id file)))
          \<and> cache s' (data_id (self s')) = Some (self s'))
     \<and> (CHR ''/'' \<notin> set base \<and> base \<noteq> [] \<and> base \<noteq> ''.'' \<longrightarrow>
          path_name (dir @ ''/'' @ base) = base \<and> path_name base = base)"
proof (intro conjI impI)
  have par: "(if truthy (u_folder_id (self s)) then Some [fmt (u_folder_id (self s))] else None)
           = (if truthy (u_folder_id (self s)) then Some [the (u_folder_id (self s))] else None)"
    by (auto simp: truthy_def fmt_def split: option.splits)
  {
    assume "drive_service (self s)"
    with assms par show "calls (snd (upload env local_path s)) =
            calls s @ [FilesCreate
                         \<lparr>b_name = Some (if truthy (file_name (self s)) then the (file_name (self s))
                                         else path_name local_path),
                          b_mimeType = None,
                          b_parents = (if truthy (u_folder_id (self s))
                                       then Some [the (u_folder_id (self s))] else None),
                          b_trashed = None\<rparr>
                         (Some media) ''id, name, mimeType, size, createdTime, modifiedTime'']"
      by (simp add: upload_def Let_def io_defs execute_def metadata_fields_def split: sum.splits)
  }
  {
    assume up: "upload env local_path s = (Inr (), s')"
    from upload_saved[OF up] show "cache s' (data_id (self s')) = Some (self s')" .
    from up assms par show "calls s' = calls s @ [FilesCreate
                         \<lparr>b_name = Some (if truthy (file_name (self s)) then the (file_name (self s))
                                         else path_name local_path),
                          b_mimeType = None,
                          b_parents = (if truthy (u_folder_id (self s))
                                       then Some [the (u_folder_id (self s))] else None),
                          b_trashed = None\<rparr>
                         (Some media) ''id, name, mimeType, size, createdTime, modifiedTime'']"
      by (auto simp: upload_def Let_def io_defs execute_def metadata_fields_def
          split: sum.splits if_splits)
    from up assms par show "\<exists>file. server env (calls s)
                     (FilesCreate
                         \<lparr>b_name = Some (if truthy (file_name (self s)) then the (file_name (self s))
                                         else path_name local_path),
                          b_mimeType = None,
                          b_parents = (if truthy (u_folder_id (self s))
                                       then Some [the (u_folder_id (self s))] else None),
                          b_trashed = None\<rparr>
                         (Some media) ''id, name, mimeType, size, createdTime, modifiedTime'')
                   = Inr file
               \<and> file_id (self s') = r_id file
               \<and> file_name (self s') = r_name file
               \<and> u_size (self s') = r_size file
               \<and> u_mime_type (self s') = r_mimeType file
               \<and> u_created_time (self s') = r_createdTime file
               \<and> u_modified_time (self s') = r_modifiedTime file
               \<and> u_url (self s') =
                   Some (''https://drive.google.com/file/d/'' @ fmt (r_id file) @ ''/view'')
               \<and> u_download_url (self s') =
                   Some (''https://drive.google.com/uc?export=download&id='' @ fmt (r_id file))"
      by (auto simp: upload_def Let_def io_defs execute_def metadata_fields_def
          split: sum.splits if_splits)
  }
  {
    assume "CHR ''/'' \<notin> set base \<and> base \<noteq> [] \<and> base \<noteq> ''.''"
    then show "path_name (dir @ ''/'' @ base) = base" and "path_name base = base"
      using path_name_base by blast+
  }
qed

text \<open>
  The instances: a Handle that already has the file id \<open>f1\<close>, where the upload still
  issues a create and adopts the id the provider returns; and a Handle without a file name,
  where the upload of \<open>docs/report.txt\<close> is named \<open>report.txt\<close>.
\<close>

lemma nameless_simps:
  "file_id (self nameless) = None" "file_name (self nameless) = None"
  "u_folder_id (self nameless) = None" "drive_service (self nameless)" "calls nameless = []"
  "fs nameless ''docs/report.txt'' = Some ''Test content''"
  by (simp_all add: nameless_def construct_def Driverator_def)

theorem upload_always_creates_witness:
  "fs ready ''local.txt'' = Some ''Test content''
   \<and> drive_service (self ready)
   \<and> file_id (self ready) = Some ''f1''
   \<and> calls (snd (upload demo_env ''local.txt'' ready)) =
       [FilesCreate \<lparr>b_name = Some ''a.txt'', b_mimeType = None, b_parents = None,
                     b_trashed = None\<rparr>
          (Some ''Test content'') ''id, name, mimeType, size, createdTime, modifiedTime'']
   \<and> fst (upload demo_env ''local.txt'' ready) = Inr ()
   \<and> file_id (self (snd (upload demo_env ''local.txt'' ready))) = Some ''f2''
   \<and> cache (snd (upload demo_env ''local.txt'' ready)) ''driverator_a.txt''
       = Some (self (snd (upload demo_env ''local.txt'' ready)))
   \<and> fs nameless ''docs/report.txt'' = Some ''Test content''
   \<and> file_name (self nameless) = None
   \<and> fst (upload demo_env ''docs/report.txt'' nameless) = Inr ()
   \<and> calls (snd (upload demo_env ''docs/report.txt'' nameless)) =
       [FilesCreate \<lparr>b_name = Some ''report.txt'', b_mimeType = None, b_parents = None,
                     b_trashed = None\<rparr>
          (Some ''Test content'') ''id, name, mimeType, size, createdTime, modifiedTime'']
   \<and> file_name (self (snd (upload demo_env ''docs/report.txt'' nameless))) = Some ''report.txt''
   \<and> path_name ''docs/report.txt'' = ''report.txt''"
proof -
  have h: "fs ready ''local.txt'' = Some ''Test content''" by (simp add: ready_simps)
  have ok: "fst (upload demo_env ''local.txt'' ready) = Inr ()"
    by (simp add: upload_def Let_def io_defs execute_def ready_simps demo_server
        demo_answer_simps demo_reply_def truthy_def)
  then have eq: "upload demo_env ''local.txt'' ready =
      (Inr (), snd (upload demo_env ''local.txt'' ready))"
    by (metis prod.collapse)
  note T = upload_always_creates [OF h, of demo_env "snd (upload demo_env ''local.txt'' ready)"]
  from T [THEN conjunct1] have a: "calls (snd (upload demo_env ''local.txt'' ready)) =
       [FilesCreate \<lparr>b_name = Some ''a.txt'', b_mimeType = None, b_parents = None,
                     b_trashed = None\<rparr>
          (Some ''Test content'') ''id, name, mimeType, size, createdTime, modifiedTime'']"
    by (simp add: ready_simps truthy_def)
  from T [THEN conjunct2, THEN conjunct1, THEN mp, OF eq]
  have b: "file_id (self (snd (upload demo_env ''local.txt'' ready))) = Some ''f2''"
    and c: "cache (snd (upload demo_env ''local.txt'' ready))
              (data_id (self (snd (upload demo_env ''local.txt'' ready))))
            = Some (self (snd (upload demo_env ''local.txt'' ready)))"
    by (auto simp: demo_server demo_answer_simps demo_reply_def)
  have d: "data_id (self (snd (upload demo_env ''local.txt'' ready))) = ''driverator_a.txt''"
    by (simp add: upload_def Let_def io_defs execute_def ready_simps demo_server
        demo_answer_simps demo_reply_def truthy_def)
  have h2: "fs nameless ''docs/report.txt'' = Some ''Test content''"
    by (simp add: nameless_simps)
  have pn: "path_name ''docs/report.txt'' = ''report.txt''"
    using upload_always_creates [OF h, where dir = "''docs''" and base = "''report.txt''",
        THEN conjunct2, THEN conjunct2]
    by simp
  have ok2: "fst (upload demo_env ''docs/report.txt'' nameless) = Inr ()"
    by (simp add: upload_def Let_def io_defs execute_def nameless_simps demo_server
        demo_answer_simps demo_reply_def truthy_def)
  then have eq2: "upload demo_env ''docs/report.txt'' nameless =
      (Inr (), snd (upload demo_env ''docs/report.txt'' nameless))"
    by (metis prod.collapse)
  note N = upload_always_creates [OF h2, of demo_env
      "snd (upload demo_env ''docs/report.txt'' nameless)"]
  from N [THEN conjunct2, THEN conjunct1, THEN mp, OF eq2]
  have e: "calls (snd (upload demo_env ''docs/report.txt'' nameless)) =
       [FilesCreate \<lparr>b_name = Some ''report.txt'', b_mimeType = None, b_parents = None,
                     b_trashed = None\<rparr>
          (Some ''Test content'') ''id, name, mimeType, size, createdTime, modifiedTime'']"
    and f: "file_name (self (snd (upload demo_env ''docs/report.txt'' nameless))) = Some ''report.txt''"
    by (auto simp: nameless_simps truthy_def pn demo_server demo_answer_simps demo_reply_def)
  from h ok a b c d h2 ok2 e f pn show ?thesis by (simp add: ready_simps nameless_simps)
qed

section \<open>Folder resolution and move\<close>


lemma create_folder_falsy_scope:
  "\<not> truthy (u_folder_id (self s)) \<Longrightarrow> \<not> truthy x \<Longrightarrow>
     create_folder env name None (s\<lparr>self := (self s)\<lparr>u_folder_id := x\<rparr>\<rparr>) =
       (fst (create_folder env name None s),
        (snd (create_folder env name None s))\<lparr>self := (self s)\<lparr>u_folder_id := x\<rparr>\<rparr>)"
  by (auto simp: create_folder_def Let_def seq_def ret_def execute_def truthy_def
      split: sum.splits)



lemma truthy_fmt: "truthy v \<Longrightarrow> fmt v = the v"
  by (auto simp: truthy_def fmt_def split: option.splits)

lemma truthy_Some: "truthy (Some x) \<longleftrightarrow> x \<noteq> []"
  by (simp add: truthy_def)

lemma find_folder_by_name_answer:
  assumes "drive_service (self s)"
  shows "find_folder_by_name env n None s =
     (case server env (calls s)
             (FilesList (''name='' @ sq n @ '' and mimeType='' @ sq ''application/vnd.google-apps.folder'' @ '' and trashed=false''
                  @ (if truthy (u_folder_id (self s))
                     then '' and '' @ sq (the (u_folder_id (self s))) @ '' in parents'' else []))
                ''drive'' ''files(id, name)'') of
        Inl e \<Rightarrow> Inl e
      | Inr listing \<Rightarrow>
          (case (case r_files listing of None \<Rightarrow> [] | Some fl \<Rightarrow> fl) of
             [] \<Rightarrow> Inr None
           | f # _ \<Rightarrow> (case e_id f of None \<Rightarrow> Inl (KeyError ''id'') | Some i \<Rightarrow> Inr (Some i))),
      s\<lparr>calls := calls s @
             [FilesList (''name='' @ sq n @ '' and mimeType='' @ sq ''application/vnd.google-apps.folder'' @ '' and trashed=false''
                  @ (if truthy (u_folder_id (self s))
                     then '' and '' @ sq (the (u_folder_id (self s))) @ '' in parents'' else []))
                ''drive'' ''files(id, name)'']\<rparr>)"
  using assms
  by (auto simp: find_folder_by_name_def Let_def io_defs execute_def truthy_fmt truthy_def
      split: sum.splits list.splits option.splits)

lemma create_folder_answer:
  assumes "drive_service (self s)"
  shows "create_folder env n None s =
     (case server env (calls s)
             (FilesCreate \<lparr>b_name = Some n, b_mimeType = Some ''application/vnd.google-apps.folder'',
                  b_parents = (if truthy (u_folder_id (self s))
                               then Some [the (u_folder_id (self s))] else None),
                  b_trashed = None\<rparr> None ''id'') of
        Inl e \<Rightarrow> Inl e
      | Inr folder \<Rightarrow> Inr (r_id folder),
      s\<lparr>calls := calls s @
             [FilesCreate \<lparr>b_name = Some n, b_mimeType = Some ''application/vnd.google-apps.folder'',
                  b_parents = (if truthy (u_folder_id (self s))
                               then Some [the (u_folder_id (self s))] else None),
                  b_trashed = None\<rparr> None ''id'']\<rparr>)"
  using assms
  by (auto simp: create_folder_def Let_def io_defs execute_def truthy_fmt truthy_def
      split: sum.splits)

lemma find_or_create_found:
  assumes "drive_service (self s)"
    and "server env (calls s)
           (FilesList (''name='' @ sq n @ '' and mimeType='' @ sq ''application/vnd.google-apps.folder'' @ '' and trashed=false''
                  @ (if truthy (u_folder_id (self s))
                     then '' and '' @ sq (the (u_folder_id (self s))) @ '' in parents'' else []))
                ''drive'' ''files(id, name)'') = Inr listing"
    and "r_files listing = Some (entry # others)" "e_id entry = Some found" "found \<noteq> []"
  shows "find_or_create_spec env n s =
     (Inr (Some found),
      s\<lparr>calls := calls s @
             [FilesList (''name='' @ sq n @ '' and mimeType='' @ sq ''application/vnd.google-apps.folder'' @ '' and trashed=false''
                  @ (if truthy (u_folder_id (self s))
                     then '' and '' @ sq (the (u_folder_id (self s))) @ '' in parents'' else []))
                ''drive'' ''files(id, name)'']\<rparr>)"
  using assms
  by (simp add: find_or_create_spec_def seq_def ret_def find_folder_by_name_answer truthy_Some)

lemma find_or_create_absent:
  assumes "drive_service (self s)"
    and "server env (calls s)
           (FilesList (''name='' @ sq n @ '' and mimeType='' @ sq ''application/vnd.google-apps.folder'' @ '' and trashed=false''
                  @ (if truthy (u_folder_id (self s))
                     then '' and '' @ sq (the (u_folder_id (self s))) @ '' in parents'' else []))
                ''drive'' ''files(id, name)'') = Inr listing"
    and "r_files listing = None \<or> r_files listing = Some []"
  shows "find_or_create_spec env n s =
     (case server env
             (calls s @
                [FilesList (''name='' @ sq n @ '' and mimeType='' @ sq ''application/vnd.google-apps.folder'' @ '' and trashed=false''
                  @ (if truthy (u_folder_id (self s))
                     then '' and '' @ sq (the (u_folder_id (self s))) @ '' in parents'' else []))
                ''drive'' ''files(id, name)''])
             (FilesCreate \<lparr>b_name = Some n, b_mimeType = Some ''application/vnd.google-apps.folder'',
                  b_parents = (if truthy (u_folder_id (self s))
                               then Some [the (u_folder_id (self s))] else None),
                  b_trashed = None\<rparr> None ''id'') of
        Inl e \<Rightarrow> Inl e
      | Inr folder \<Rightarrow> Inr (r_id folder),
      s\<lparr>calls := calls s @
             [FilesList (''name='' @ sq n @ '' and mimeType='' @ sq ''application/vnd.google-apps.folder'' @ '' and trashed=false''
                  @ (if truthy (u_folder_id (self s))
                     then '' and '' @ sq (the (u_folder_id (self s))) @ '' in parents'' else []))
                ''drive'' ''files(id, name)'',
              FilesCreate \<lparr>b_name = Some n, b_mimeType = Some ''application/vnd.google-apps.folder'',
                  b_parents = (if truthy (u_folder_id (self s))
                               then Some [the (u_folder_id (self s))] else None),
                  b_trashed = None\<rparr> None ''id'']\<rparr>)"
proof -
  let ?s1 = "s\<lparr>calls := calls s @
             [FilesList (''name='' @ sq n @ '' and mimeType='' @ sq ''application/vnd.google-apps.folder'' @ '' and trashed=false''
                  @ (if truthy (u_folder_id (self s))
                     then '' and '' @ sq (the (u_folder_id (self s))) @ '' in parents'' else []))
                ''drive'' ''files(id, name)'']\<rparr>"
  from assms have ff: "find_folder_by_name env n None s = (Inr None, ?s1)"
    by (auto simp: find_folder_by_name_answer)
  have ds: "drive_service (self ?s1)" using assms(1) by simp
  show ?thesis
    using ff create_folder_answer[OF ds, of env n]
    by (simp add: find_or_create_spec_def seq_def truthy_def)
qed






lemma folder_only_simps:
  "service_account_file (self folder_only) = ''key.json''"
  "u_folder_name (self folder_only) = Some ''Archive''" "u_folder_id (self folder_only) = None"
  "file_name (self folder_only) = None" "file_id (self folder_only) = None"
  "calls folder_only = []" "drive_service (self folder_only) = False"
  by (simp_all add: folder_only_def construct_def Driverator_def)

lemma demo_credentials: "credentials demo_env k = None"
  by (simp add: demo_env_def)

lemma shelf_server: "server shelf_env hist c = Inr (shelf_answer c)"
  by (simp add: shelf_env_def)

lemma shelf_credentials: "credentials shelf_env k = None"
  by (simp add: shelf_env_def)

lemma shelf_answer_simps:
  "shelf_answer (FilesList q sp ''files(id, name)'') =
     demo_reply\<lparr>r_files := Some [\<lparr>e_id = Some ''top'', e_name = Some ''Archive''\<rparr>]\<rparr>"
  "shelf_answer (FilesList q sp ''files(id)'') = demo_reply"
  "shelf_answer (FilesGet a b) = demo_reply"
  "shelf_answer (FilesUpdate i bo me ad re fi) = demo_reply"
  by (simp_all add: shelf_answer_def demo_answer_def)



section \<open>initialize\<close>

lemma initialize_blocks:
  "initialize env =
     seq (authenticate env) (\<lambda>_.
     seq (init_folder_block env) (\<lambda>_.
     seq (init_file_block env) (\<lambda>_. init_load_block env)))"
  unfolding initialize_def init_folder_block_def init_file_block_def init_load_block_def
  by (rule refl)

lemma quiet_refl: "quiet s s"
  by (simp add: quiet_def)

lemma quiet_trans: "quiet s s1 \<Longrightarrow> quiet s1 s2 \<Longrightarrow> quiet s s2"
  by (simp add: quiet_def)

lemma quiet_frame: "self s' = self s \<Longrightarrow> cache s' = cache s \<Longrightarrow> quiet s s'"
  by (simp add: quiet_def)

lemma authenticate_quiet: "authenticate env s = (r, s') \<Longrightarrow> quiet s s'"
  by (auto simp: authenticate_def quiet_def split: option.splits)

lemma find_file_by_name_frame:
  "find_file_by_name env name s = (r, s') \<Longrightarrow>
     self s' = self s \<and> cache s' = cache s \<and> fs s' = fs s"
  by (auto simp: find_file_by_name_def Let_def seq_def ret_def raise_def execute_def
      split: if_splits sum.splits list.splits option.splits)

lemma assign_folder_quiet: "quiet s (s\<lparr>self := (self s)\<lparr>u_folder_id := x\<rparr>\<rparr>)"
  by (simp add: quiet_def)

lemma assign_file_quiet: "quiet s (s\<lparr>self := (self s)\<lparr>file_id := x\<rparr>\<rparr>)"
  by (simp add: quiet_def)

lemma init_folder_block_quiet:
  assumes "init_folder_block env s = (r, s')"
  shows "quiet s s' \<and> file_id (self s') = file_id (self s)"
proof (cases "truthy (u_folder_name (self s)) \<and> \<not> truthy (u_folder_id (self s))")
  case False
  with assms show ?thesis by (auto simp: init_folder_block_def ret_def quiet_refl)
next
  case True
  let ?n = "the (u_folder_name (self s))"
  obtain x s1 where ff: "find_folder_by_name env ?n None s = (x, s1)"
    by (cases "find_folder_by_name env ?n None s")
  note f1 = find_folder_by_name_frame[OF ff]
  show ?thesis
  proof (cases x)
    case (Inl e)
    with assms True ff f1 show ?thesis
      by (auto simp: init_folder_block_def seq_def quiet_def)
  next
    case (Inr found)
    let ?s2 = "s1\<lparr>self := (self s1)\<lparr>u_folder_id := found\<rparr>\<rparr>"
    show ?thesis
    proof (cases "truthy found")
      case T: True
      with assms True ff Inr have "s' = ?s2"
        by (simp add: init_folder_block_def seq_def assign_def ret_def)
      with f1 show ?thesis by (simp add: quiet_def)
    next
      case F: False
      obtain y s3 where cf: "create_folder env ?n None ?s2 = (y, s3)"
        by (cases "create_folder env ?n None ?s2")
      note f3 = create_folder_frame[OF cf]
      have n2: "the (u_folder_name (self ?s2)) = ?n" using f1 by simp
      from assms True ff Inr F cf n2 f1
      have "s' = s3 \<or> s' = s3\<lparr>self := (self s3)\<lparr>u_folder_id := projr y\<rparr>\<rparr>"
        by (cases y) (auto simp: init_folder_block_def seq_def assign_def ret_def)
      with f3 f1 show ?thesis by (auto simp: quiet_def)
    qed
  qed
qed

lemma init_file_block_quiet:
  assumes "init_file_block env s = (r, s')"
  shows "quiet s s'"
proof (cases "truthy (file_name (self s)) \<and> \<not> truthy (file_id (self s))")
  case False
  with assms show ?thesis by (auto simp: init_file_block_def ret_def quiet_refl)
next
  case True
  obtain x s1 where ff: "find_file_by_name env (the (file_name (self s))) s = (x, s1)"
    by (cases "find_file_by_name env (the (file_name (self s))) s")
  note f1 = find_file_by_name_frame[OF ff]
  from assms True ff f1 show ?thesis
    by (cases x) (auto simp: init_file_block_def seq_def assign_def quiet_def)
qed

lemma exists_frame:
  "exists env s = (r, s') \<Longrightarrow> self s' = self s \<and> cache s' = cache s \<and> fs s' = fs s"
  by (auto simp: exists_def io_defs execute_def split: if_splits sum.splits)

lemma exists_True:
  "exists env s = (Inr True, s') \<Longrightarrow>
     truthy (file_id (self s))
     \<and> (\<exists>file. server env (calls s) (FilesGet (file_id (self s)) ''id, trashed'') = Inr file
                \<and> r_trashed file \<noteq> Some True)"
  by (auto simp: exists_def io_defs execute_def split: if_splits sum.splits option.splits)

lemma load_metadata_outcome:
  "load_metadata env s = (r, s') \<Longrightarrow>
     (self s' = self s \<and> cache s' = cache s)
     \<or> (r = Inr () \<and> file_id (self s') = file_id (self s)
         \<and> data_id (self s') = data_id (self s)
         \<and> cache s' = (cache s)(data_id (self s') \<mapsto> self s'))"
  by (auto simp: load_metadata_def io_defs execute_def split: if_splits sum.splits)

lemma init_load_block_outcome:
  assumes "init_load_block env s = (r, s')"
  shows "(self s' = self s \<and> cache s' = cache s)
     \<or> (r = Inr () \<and> truthy (file_id (self s'))
         \<and> (\<exists>hist file. server env hist (FilesGet (file_id (self s')) ''id, trashed'') = Inr file
                \<and> r_trashed file \<noteq> Some True)
         \<and> data_id (self s') = data_id (self s)
         \<and> cache s' = (cache s)(data_id (self s') \<mapsto> self s'))"
proof (cases "truthy (file_id (self s))")
  case False
  with assms show ?thesis by (simp add: init_load_block_def ret_def)
next
  case True
  obtain x s1 where ex: "exists env s = (x, s1)" by (cases "exists env s")
  note f1 = exists_frame[OF ex]
  show ?thesis
  proof (cases "x = Inr True")
    case False
    with assms True ex f1 show ?thesis
      by (cases x) (auto simp: init_load_block_def seq_def ret_def)
  next
    case T: True
    with assms True ex have lm: "load_metadata env s1 = (r, s')"
      by (simp add: init_load_block_def seq_def)
    from ex T have "exists env s = (Inr True, s1)" by simp
    from exists_True[OF this] obtain got where
      f: "server env (calls s) (FilesGet (file_id (self s)) ''id, trashed'') = Inr got"
         "r_trashed got \<noteq> Some True" by blast
    from f have E: "\<exists>hist file. server env hist (FilesGet (file_id (self s)) ''id, trashed'') = Inr file
                \<and> r_trashed file \<noteq> Some True" by blast
    from load_metadata_outcome[OF lm] show ?thesis
    proof
      assume "self s' = self s1 \<and> cache s' = cache s1"
      with f1 show ?thesis by simp
    next
      assume a: "r = Inr () \<and> file_id (self s') = file_id (self s1)
         \<and> data_id (self s') = data_id (self s1)
         \<and> cache s' = (cache s1)(data_id (self s') \<mapsto> self s')"
      with f1 have same: "file_id (self s') = file_id (self s)" by simp
      with E have E': "\<exists>hist file. server env hist (FilesGet (file_id (self s')) ''id, trashed'') = Inr file
                \<and> r_trashed file \<noteq> Some True" by simp
      from a f1 True same E' show ?thesis by simp
    qed
  qed
qed

lemma seq_cases:
  assumes "seq m f s = (r, s')"
  obtains (raised) e where "m s = (Inl e, s')" "r = Inl e"
        | (went_on) x s1 where "m s = (Inr x, s1)" "f x s1 = (r, s')"
  using assms by (auto simp: seq_def split: prod.splits sum.splits)

lemma init_folder_block_adopts:
  assumes "truthy (u_folder_name (self a))" "\<not> truthy (u_folder_id (self a))"
    and foc: "find_or_create_spec env (the (u_folder_name (self a))) a = (Inr adopted, sf)"
  shows "init_folder_block env a = (Inr (), sf\<lparr>self := (self sf)\<lparr>u_folder_id := adopted\<rparr>\<rparr>)"
proof -
  let ?n = "the (u_folder_name (self a))"
  obtain found s1 where ff: "find_folder_by_name env ?n None a = (Inr found, s1)"
    using foc by (auto simp: find_or_create_spec_def elim!: seq_InrE)
  from find_folder_by_name_frame[OF ff] have s1: "self s1 = self a" by simp
  show ?thesis
  proof (cases "truthy found")
    case True
    with foc ff have "adopted = found" "sf = s1"
      by (simp_all add: find_or_create_spec_def seq_def ret_def)
    with assms ff s1 True show ?thesis
      by (simp add: init_folder_block_def seq_def ret_def assign_def)
  next
    case False
    with foc ff have cf: "create_folder env ?n None s1 = (Inr adopted, sf)"
      by (simp add: find_or_create_spec_def seq_def)
    from create_folder_frame[OF cf] have s2: "self sf = self s1" by simp
    have nf: "\<not> truthy (u_folder_id (self s1))" using s1 assms by simp
    from create_folder_falsy_scope[OF nf False, of env ?n] cf
    have "create_folder env ?n None (s1\<lparr>self := (self s1)\<lparr>u_folder_id := found\<rparr>\<rparr>) =
       (Inr adopted, sf\<lparr>self := (self s1)\<lparr>u_folder_id := found\<rparr>\<rparr>)" by simp
    with assms ff s1 s2 False show ?thesis
      by (simp add: init_folder_block_def seq_def ret_def assign_def)
  qed
qed

lemma init_file_block_keeps_folder:
  assumes "init_file_block env s = (r, s')"
  shows "u_folder_id (self s') = u_folder_id (self s)"
proof (cases "truthy (file_name (self s)) \<and> \<not> truthy (file_id (self s))")
  case False
  with assms show ?thesis by (auto simp: init_file_block_def ret_def)
next
  case True
  obtain x s1 where ff: "find_file_by_name env (the (file_name (self s))) s = (x, s1)"
    by (cases "find_file_by_name env (the (file_name (self s))) s")
  note f1 = find_file_by_name_frame[OF ff]
  from assms True ff f1 show ?thesis
    by (cases x) (auto simp: init_file_block_def seq_def assign_def)
qed

lemma load_metadata_keeps_folder:
  "load_metadata env s = (r, s') \<Longrightarrow> u_folder_id (self s') = u_folder_id (self s)"
  by (auto simp: load_metadata_def io_defs execute_def split: if_splits sum.splits)

lemma init_load_block_keeps_folder:
  assumes "init_load_block env s = (r, s')"
  shows "u_folder_id (self s') = u_folder_id (self s)"
proof (cases "truthy (file_id (self s))")
  case False
  with assms show ?thesis by (simp add: init_load_block_def ret_def)
next
  case True
  with assms have "seq (exists env) (\<lambda>ex. if ex then load_metadata env else ret ()) s = (r, s')"
    by (simp add: init_load_block_def)
  then show ?thesis
  proof (cases rule: seq_cases)
    case (raised e)
    from exists_frame[OF raised(1)] show ?thesis by simp
  next
    case (went_on x s1)
    from exists_frame[OF went_on(1)] went_on(2) show ?thesis
      by (cases x) (auto simp: ret_def dest: load_metadata_keeps_folder)
  qed
qed

lemma quiet_then_loaded: "quiet s s1 \<Longrightarrow> loaded env r s1 s' \<Longrightarrow> loaded env r s s'"
  by (simp add: quiet_def loaded_def)

lemma init_load_block_quiet_or_loaded:
  "init_load_block env s = (r, s') \<Longrightarrow> quiet s s' \<or> loaded env r s s'"
  by (drule init_load_block_outcome) (auto simp: quiet_def loaded_def)

lemma initialize_quiet_or_loaded:
  assumes "initialize env s = (r, s')"
  shows "quiet s s' \<or> loaded env r s s'"
proof -
  from assms have "seq (authenticate env) (\<lambda>_.
     seq (init_folder_block env) (\<lambda>_.
     seq (init_file_block env) (\<lambda>_. init_load_block env))) s = (r, s')"
    by (simp add: initialize_blocks)
  then show ?thesis
  proof (cases rule: seq_cases)
    case (raised e)
    from authenticate_quiet[OF raised(1)] show ?thesis by simp
  next
    case (went_on x a)
    note q0 = authenticate_quiet[OF went_on(1)]
    from went_on(2) show ?thesis
    proof (cases rule: seq_cases)
      case (raised e)
      from init_folder_block_quiet[OF raised(1)] q0 show ?thesis
        by (blast intro: quiet_trans)
    next
      case (went_on y s1)
      from init_folder_block_quiet[OF went_on(1)] q0 have q1: "quiet s s1"
        by (blast intro: quiet_trans)
      from went_on(2) show ?thesis
      proof (cases rule: seq_cases)
        case (raised e)
        from init_file_block_quiet[OF raised(1)] q1 show ?thesis
          by (blast intro: quiet_trans)
      next
        case (went_on z s2)
        from init_file_block_quiet[OF went_on(1)] q1 have q2: "quiet s s2"
          by (blast intro: quiet_trans)
        from init_load_block_quiet_or_loaded[OF went_on(2)] q2 show ?thesis
          by (blast intro: quiet_trans quiet_then_loaded)
      qed
    qed
  qed
qed

lemma initialize_keeps_adopted_folder:
  assumes cred: "credentials env (service_account_file (self s)) = None"
    and need: "truthy (u_folder_name (self s))" "\<not> truthy (u_folder_id (self s))"
    and foc: "find_or_create_spec env (the (u_folder_name (self s)))
                (s\<lparr>self := (self s)\<lparr>drive_service := True\<rparr>\<rparr>) = (Inr adopted, sf)"
    and init: "initialize env s = (r, s')"
  shows "u_folder_id (self s') = adopted"
proof -
  let ?a = "s\<lparr>self := (self s)\<lparr>drive_service := True\<rparr>\<rparr>"
  let ?s1 = "sf\<lparr>self := (self sf)\<lparr>u_folder_id := adopted\<rparr>\<rparr>"
  have auth: "authenticate env s = (Inr (), ?a)" using cred by (simp add: authenticate_def)
  have fb: "init_folder_block env ?a = (Inr (), ?s1)"
    using init_folder_block_adopts[of ?a env adopted sf] need foc by simp
  from init auth fb have "seq (init_file_block env) (\<lambda>_. init_load_block env) ?s1 = (r, s')"
    by (simp add: initialize_blocks seq_def)
  then show ?thesis
  proof (cases rule: seq_cases)
    case (raised e)
    from init_file_block_keeps_folder[OF raised(1)] show ?thesis by simp
  next
    case (went_on x s2)
    from init_file_block_keeps_folder[OF went_on(1)] init_load_block_keeps_folder[OF went_on(2)]
    show ?thesis by simp
  qed
qed

lemma find_file_by_name_calls:
  "find_file_by_name env name s = (Inr found, s2) \<Longrightarrow>
     calls s2 = calls s @
       [FilesList (''name='' @ sq name @ '' and trashed=false and mimeType!=''
                   @ sq ''application/vnd.google-apps.folder''
                   @ (if truthy (u_folder_id (self s))
                      then '' and '' @ sq (the (u_folder_id (self s))) @ '' in parents''
                      else []))
          ''drive'' ''files(id)'']"
  by (auto simp: find_file_by_name_def Let_def seq_def ret_def raise_def execute_def
      truthy_def fmt_def
      split: if_splits sum.splits list.splits option.splits)

lemma initialize_file_step:
  assumes cred: "credentials env (service_account_file (self s)) = None"
    and folder: "truthy (u_folder_name (self s)) \<and> \<not> truthy (u_folder_id (self s)) \<longrightarrow>
                 find_or_create_spec env (the (u_folder_name (self s)))
                   (s\<lparr>self := (self s)\<lparr>drive_service := True\<rparr>\<rparr>) = (Inr adopted, sf)"
    and s1: "s1 = (if truthy (u_folder_name (self s)) \<and> \<not> truthy (u_folder_id (self s))
                   then sf\<lparr>self := (self sf)\<lparr>u_folder_id := adopted\<rparr>\<rparr>
                   else s\<lparr>self := (self s)\<lparr>drive_service := True\<rparr>\<rparr>)"
    and want: "truthy (file_name (self s))" "\<not> truthy (file_id (self s))"
    and ff: "find_file_by_name env (the (file_name (self s))) s1 = (Inr found, s2)"
  shows "initialize env s =
           (if truthy found
            then seq (exists env) (\<lambda>present. if present then load_metadata env else ret ())
                   (s2\<lparr>self := (self s2)\<lparr>file_id := found\<rparr>\<rparr>)
            else (Inr (), s2\<lparr>self := (self s2)\<lparr>file_id := found\<rparr>\<rparr>))"
proof -
  let ?a = "s\<lparr>self := (self s)\<lparr>drive_service := True\<rparr>\<rparr>"
  have auth: "authenticate env s = (Inr (), ?a)" using cred by (simp add: authenticate_def)
  have fb: "init_folder_block env ?a = (Inr (), s1)"
  proof (cases "truthy (u_folder_name (self s)) \<and> \<not> truthy (u_folder_id (self s))")
    case True
    with folder s1 init_folder_block_adopts[of ?a env adopted sf] show ?thesis by simp
  next
    case False
    with s1 show ?thesis by (auto simp: init_folder_block_def ret_def)
  qed
  have same: "file_name (self s1) = file_name (self s)" "file_id (self s1) = file_id (self s)"
    using init_folder_block_quiet[OF fb] by (simp_all add: quiet_def)
  have fi: "init_file_block env s1 = (Inr (), s2\<lparr>self := (self s2)\<lparr>file_id := found\<rparr>\<rparr>)"
    using want same ff by (simp add: init_file_block_def seq_def assign_def)
  show ?thesis
    using auth fb fi by (simp add: initialize_blocks seq_def init_load_block_def ret_def)
qed

lemma only_reads_simps:
  "only_reads []" "only_reads [FilesList q sp fl]" "only_reads [FilesGet i fl]"
  "only_reads (xs @ ys) \<longleftrightarrow> only_reads xs \<and> only_reads ys"
  by (simp_all add: only_reads_def)

lemma find_file_by_name_reads:
  "find_file_by_name env name s = (r, s') \<Longrightarrow> \<exists>rest. calls s' = calls s @ rest \<and> only_reads rest"
  by (auto simp: find_file_by_name_def Let_def seq_def ret_def raise_def execute_def
      only_reads_def
      split: if_splits sum.splits list.splits option.splits)

lemma exists_reads:
  "exists env s = (r, s') \<Longrightarrow> \<exists>rest. calls s' = calls s @ rest \<and> only_reads rest"
  by (auto simp: exists_def io_defs execute_def only_reads_def split: if_splits sum.splits)

lemma load_metadata_reads:
  "load_metadata env s = (r, s') \<Longrightarrow> \<exists>rest. calls s' = calls s @ rest \<and> only_reads rest"
  by (auto simp: load_metadata_def io_defs execute_def only_reads_def split: if_splits sum.splits)

lemma reads_trans:
  assumes "\<exists>rest. calls s1 = calls s @ rest \<and> only_reads rest"
    and "\<exists>rest. calls s2 = calls s1 @ rest \<and> only_reads rest"
  shows "\<exists>rest. calls s2 = calls s @ rest \<and> only_reads rest"
proof -
  from assms obtain a b where "calls s1 = calls s @ a" "only_reads a"
    "calls s2 = calls s1 @ b" "only_reads b" by blast
  then have "calls s2 = calls s @ (a @ b) \<and> only_reads (a @ b)"
    by (simp add: only_reads_simps)
  then show ?thesis by blast
qed

lemma reads_refl: "\<exists>rest. calls s = calls s @ rest \<and> only_reads rest"
  by (rule exI[of _ "[]"]) (simp add: only_reads_simps)

lemma init_file_block_reads:
  assumes "init_file_block env s = (r, s')"
  shows "\<exists>rest. calls s' = calls s @ rest \<and> only_reads rest"
proof (cases "truthy (file_name (self s)) \<and> \<not> truthy (file_id (self s))")
  case False
  with assms have "s' = s" by (auto simp: init_file_block_def ret_def)
  with reads_refl[of s] show ?thesis by blast
next
  case True
  obtain x s1 where ff: "find_file_by_name env (the (file_name (self s))) s = (x, s1)"
    by (cases "find_file_by_name env (the (file_name (self s))) s")
  from assms True ff have "calls s' = calls s1"
    by (cases x) (auto simp: init_file_block_def seq_def assign_def)
  with find_file_by_name_reads[OF ff] show ?thesis by simp
qed

lemma init_load_block_reads:
  assumes "init_load_block env s = (r, s')"
  shows "\<exists>rest. calls s' = calls s @ rest \<and> only_reads rest"
proof (cases "truthy (file_id (self s))")
  case False
  with assms have "s' = s" by (simp add: init_load_block_def ret_def)
  with reads_refl[of s] show ?thesis by blast
next
  case True
  with assms have "seq (exists env) (\<lambda>ex. if ex then load_metadata env else ret ()) s = (r, s')"
    by (simp add: init_load_block_def)
  then show ?thesis
  proof (cases rule: seq_cases)
    case (raised e)
    from exists_reads[OF raised(1)] show ?thesis .
  next
    case (went_on x s1)
    note a = exists_reads[OF went_on(1)]
    show ?thesis
    proof (cases x)
      case True
      with went_on(2) have "load_metadata env s1 = (r, s')" by simp
      from reads_trans[OF a load_metadata_reads[OF this]] show ?thesis .
    next
      case False
      with went_on(2) have "s' = s1" by (simp add: ret_def)
      with a show ?thesis by simp
    qed
  qed
qed

lemma initialize_after_folder:
  assumes cred: "credentials env (service_account_file (self s)) = None"
    and need: "truthy (u_folder_name (self s))" "\<not> truthy (u_folder_id (self s))"
    and foc: "find_or_create_spec env (the (u_folder_name (self s)))
                (s\<lparr>self := (self s)\<lparr>drive_service := True\<rparr>\<rparr>) = (Inr adopted, sf)"
    and init: "initialize env s = (r, s')"
  shows "\<exists>rest. calls s' = calls sf @ rest \<and> only_reads rest"
proof -
  let ?a = "s\<lparr>self := (self s)\<lparr>drive_service := True\<rparr>\<rparr>"
  let ?s1 = "sf\<lparr>self := (self sf)\<lparr>u_folder_id := adopted\<rparr>\<rparr>"
  have auth: "authenticate env s = (Inr (), ?a)" using cred by (simp add: authenticate_def)
  have fb: "init_folder_block env ?a = (Inr (), ?s1)"
    using init_folder_block_adopts[of ?a env adopted sf] need foc by simp
  from init auth fb have "seq (init_file_block env) (\<lambda>_. init_load_block env) ?s1 = (r, s')"
    by (simp add: initialize_blocks seq_def)
  then show ?thesis
  proof (cases rule: seq_cases)
    case (raised e)
    from init_file_block_reads[OF raised(1)] show ?thesis by simp
  next
    case (went_on x s2)
    from reads_trans[OF init_file_block_reads[OF went_on(1)] init_load_block_reads[OF went_on(2)]]
    show ?thesis by simp
  qed
qed

text \<open>
  Claim C7. With a key file that loads, \<open>initialize\<close> on any Handle:
  \<^item> given a folder name and no folder id, first issues the list request of
    \<open>_find_folder_by_name\<close> for folders of that exact name, not trashed, with no parent. If
    the listing is not empty it adopts the id of the first entry as folder id and creates
    nothing: every later request of the call is a listing or a get. If the listing is empty
    it issues the create request of \<open>_create_folder\<close> for that name and adopts the id of
    the new folder. In both cases the adopted id is the one the find-or-create policy
    yields, and it is kept whatever the later steps do;
  \<^item> given a file name and no file id, issues one \<open>files().list\<close> for the name, scoped
    to the folder id of the previous step when there is one, and stores the id it finds;
    when nothing is found it returns normally with \<open>file_id\<close> unset and issues nothing
    further; when an id is found it goes on to the existence check and the metadata load;
  \<^item> in every case it either leaves the cache, the file name and the four metadata
    attributes as they were, or it returned normally with \<open>file_id\<close> set, after the provider
    answered the existence check for that id with an object that is not trashed, and the
    cache entry is the resulting field set.
\<close>

theorem initialize_resolves_then_loads:
  "(credentials env (service_account_file (self s)) = None
      \<and> truthy (u_folder_name (self s)) \<and> \<not> truthy (u_folder_id (self s))
      \<and> find_or_create_spec env (the (u_folder_name (self s)))
           (s\<lparr>self := (self s)\<lparr>drive_service := True\<rparr>\<rparr>) = (Inr adopted, sf)
      \<and> initialize env s = (r, s') \<longrightarrow>
        u_folder_id (self s') = adopted)
   \<and> (credentials env (service_account_file (self s)) = None
      \<and> truthy (u_folder_name (self s)) \<and> \<not> truthy (u_folder_id (self s))
      \<and> server env (calls s)
            (FilesList (''name='' @ sq (the (u_folder_name (self s))) @ '' and mimeType=''
                        @ sq ''application/vnd.google-apps.folder'' @ '' and trashed=false'')
               ''drive'' ''files(id, name)'') = Inr listing
      \<and> r_files listing = Some (entry # others)
      \<and> e_id entry = Some folder_found \<and> folder_found \<noteq> []
      \<and> initialize env s = (r, s') \<longrightarrow>
        u_folder_id (self s') = Some folder_found
        \<and> (\<exists>rest. calls s' = calls s @
               (FilesList (''name='' @ sq (the (u_folder_name (self s))) @ '' and mimeType=''
                        @ sq ''application/vnd.google-apps.folder'' @ '' and trashed=false'')
               ''drive'' ''files(id, name)'') # rest
             \<and> only_reads rest))
   \<and> (credentials env (service_account_file (self s)) = None
      \<and> truthy (u_folder_name (self s)) \<and> \<not> truthy (u_folder_id (self s))
      \<and> server env (calls s)
            (FilesList (''name='' @ sq (the (u_folder_name (self s))) @ '' and mimeType=''
                        @ sq ''application/vnd.google-apps.folder'' @ '' and trashed=false'')
               ''drive'' ''files(id, name)'') = Inr listing
      \<and> (r_files listing = None \<or> r_files listing = Some [])
      \<and> server env (calls s @
            [FilesList (''name='' @ sq (the (u_folder_name (self s))) @ '' and mimeType=''
                        @ sq ''application/vnd.google-apps.folder'' @ '' and trashed=false'')
               ''drive'' ''files(id, name)''])
            (FilesCreate \<lparr>b_name = Some (the (u_folder_name (self s))),
                            b_mimeType = Some ''application/vnd.google-apps.folder'',
                            b_parents = None, b_trashed = None\<rparr> None ''id'') = Inr folder
      \<and> initialize env s = (r, s') \<longrightarrow>
        u_folder_id (self s') = r_id folder
        \<and> (\<exists>rest. calls s' = calls s @
               (FilesList (''name='' @ sq (the (u_folder_name (self s))) @ '' and mimeType=''
                        @ sq ''application/vnd.google-apps.folder'' @ '' and trashed=false'')
               ''drive'' ''files(id, name)'')
               # (FilesCreate \<lparr>b_name = Some (the (u_folder_name (self s))),
                            b_mimeType = Some ''application/vnd.google-apps.folder'',
                            b_parents = None, b_trashed = None\<rparr> None ''id'') # rest
             \<and> only_reads rest))
   \<and> (credentials env (service_account_file (self s)) = None
      \<and> (truthy (u_folder_name (self s)) \<and> \<not> truthy (u_folder_id (self s)) \<longrightarrow>
            find_or_create_spec env (the (u_folder_name (self s)))
              (s\<lparr>self := (self s)\<lparr>drive_service := True\<rparr>\<rparr>) = (Inr adopted, sf))
      \<and> s1 = (if truthy (u_folder_name (self s)) \<and> \<not> truthy (u_folder_id (self s))
               then sf\<lparr>self := (self sf)\<lparr>u_folder_id := adopted\<rparr>\<rparr>
               else s\<lparr>self := (self s)\<lparr>drive_service := True\<rparr>\<rparr>)
      \<and> truthy (file_name (self s)) \<and> \<not> truthy (file_id (self s))
      \<and> find_file_by_name env (the (file_name (self s))) s1 = (Inr found, s2) \<longrightarrow>
        initialize env s =
           (if truthy found
            then seq (exists env) (\<lambda>present. if present then load_metadata env else ret ())
                   (s2\<lparr>self := (self s2)\<lparr>file_id := found\<rparr>\<rparr>)
            else (Inr (), s2\<lparr>self := (self s2)\<lparr>file_id := found\<rparr>\<rparr>))
        \<and> calls s2 = calls s1 @
             [FilesList (''name='' @ sq (the (file_name (self s)))
                         @ '' and trashed=false and mimeType!=''
                         @ sq ''application/vnd.google-apps.folder''
                         @ (if truthy (u_folder_id (self s1))
                            then '' and '' @ sq (the (u_folder_id (self s1))) @ '' in parents''
                            else []))
                ''drive'' ''files(id)''])
   \<and> (initialize env s = (r, s') \<longrightarrow>
        (cache s' = cache s \<and> file_name (self s') = file_name (self s)
           \<and> u_size (self s') = u_size (self s) \<and> u_mime_type (self s') = u_mime_type (self s)
           \<and> u_created_time (self s') = u_created_time (self s)
           \<and> u_modified_time (self s') = u_modified_time (self s))
        \<or> (r = Inr () \<and> truthy (file_id (self s'))
            \<and> (\<exists>hist got. server env hist (FilesGet (file_id (self s')) ''id, trashed'') = Inr got
                           \<and> r_trashed got \<noteq> Some True)
            \<and> cache s' = (cache s)(data_id (self s') \<mapsto> self s')))"
proof (intro conjI impI)
  assume "credentials env (service_account_file (self s)) = None
      \<and> truthy (u_folder_name (self s)) \<and> \<not> truthy (u_folder_id (self s))
      \<and> find_or_create_spec env (the (u_folder_name (self s)))
           (s\<lparr>self := (self s)\<lparr>drive_service := True\<rparr>\<rparr>) = (Inr adopted, sf)
      \<and> initialize env s = (r, s')"
  then show "u_folder_id (self s') = adopted"
    using initialize_keeps_adopted_folder by blast
next
  let ?a = "s\<lparr>self := (self s)\<lparr>drive_service := True\<rparr>\<rparr>"
  let ?L = "FilesList (''name='' @ sq (the (u_folder_name (self s))) @ '' and mimeType=''
                        @ sq ''application/vnd.google-apps.folder'' @ '' and trashed=false'')
               ''drive'' ''files(id, name)''"
  assume a: "credentials env (service_account_file (self s)) = None
      \<and> truthy (u_folder_name (self s)) \<and> \<not> truthy (u_folder_id (self s))
      \<and> server env (calls s)
            (FilesList (''name='' @ sq (the (u_folder_name (self s))) @ '' and mimeType=''
                        @ sq ''application/vnd.google-apps.folder'' @ '' and trashed=false'')
               ''drive'' ''files(id, name)'') = Inr listing
      \<and> r_files listing = Some (entry # others)
      \<and> e_id entry = Some folder_found \<and> folder_found \<noteq> []
      \<and> initialize env s = (r, s')"
  then have foc: "find_or_create_spec env (the (u_folder_name (self s))) ?a =
      (Inr (Some folder_found), ?a\<lparr>calls := calls ?a @ [?L]\<rparr>)"
    using find_or_create_found[of ?a env "the (u_folder_name (self s))" listing entry others
        folder_found]
    by simp
  from a have pre: "credentials env (service_account_file (self s)) = None"
    "truthy (u_folder_name (self s))" "\<not> truthy (u_folder_id (self s))"
    "initialize env s = (r, s')" by blast+
  from initialize_keeps_adopted_folder[OF pre(1-3) foc pre(4)]
  show "u_folder_id (self s') = Some folder_found" .
  from initialize_after_folder[OF pre(1-3) foc pre(4)]
  show "\<exists>rest. calls s' = calls s @
               (FilesList (''name='' @ sq (the (u_folder_name (self s))) @ '' and mimeType=''
                        @ sq ''application/vnd.google-apps.folder'' @ '' and trashed=false'')
               ''drive'' ''files(id, name)'') # rest
             \<and> only_reads rest"
    by simp
next
  let ?a = "s\<lparr>self := (self s)\<lparr>drive_service := True\<rparr>\<rparr>"
  let ?L = "FilesList (''name='' @ sq (the (u_folder_name (self s))) @ '' and mimeType=''
                        @ sq ''application/vnd.google-apps.folder'' @ '' and trashed=false'')
               ''drive'' ''files(id, name)''"
  let ?C = "FilesCreate \<lparr>b_name = Some (the (u_folder_name (self s))),
                            b_mimeType = Some ''application/vnd.google-apps.folder'',
                            b_parents = None, b_trashed = None\<rparr> None ''id''"
  assume a: "credentials env (service_account_file (self s)) = None
      \<and> truthy (u_folder_name (self s)) \<and> \<not> truthy (u_folder_id (self s))
      \<and> server env (calls s)
            (FilesList (''name='' @ sq (the (u_folder_name (self s))) @ '' and mimeType=''
                        @ sq ''application/vnd.google-apps.folder'' @ '' and trashed=false'')
               ''drive'' ''files(id, name)'') = Inr listing
      \<and> (r_files listing = None \<or> r_files listing = Some [])
      \<and> server env (calls s @
            [FilesList (''name='' @ sq (the (u_folder_name (self s))) @ '' and mimeType=''
                        @ sq ''application/vnd.google-apps.folder'' @ '' and trashed=false'')
               ''drive'' ''files(id, name)''])
            (FilesCreate \<lparr>b_name = Some (the (u_folder_name (self s))),
                            b_mimeType = Some ''application/vnd.google-apps.folder'',
                            b_parents = None, b_trashed = None\<rparr> None ''id'') = Inr folder
      \<and> initialize env s = (r, s')"
  then have foc: "find_or_create_spec env (the (u_folder_name (self s))) ?a =
      (Inr (r_id folder), ?a\<lparr>calls := calls ?a @ [?L, ?C]\<rparr>)"
    using find_or_create_absent[of ?a env "the (u_folder_name (self s))" listing]
    by simp
  from a have pre: "credentials env (service_account_file (self s)) = None"
    "truthy (u_folder_name (self s))" "\<not> truthy (u_folder_id (self s))"
    "initialize env s = (r, s')" by blast+
  from initialize_keeps_adopted_folder[OF pre(1-3) foc pre(4)]
  show "u_folder_id (self s') = r_id folder" .
  from initialize_after_folder[OF pre(1-3) foc pre(4)]
  show "\<exists>rest. calls s' = calls s @
               (FilesList (''name='' @ sq (the (u_folder_name (self s))) @ '' and mimeType=''
                        @ sq ''application/vnd.google-apps.folder'' @ '' and trashed=false'')
               ''drive'' ''files(id, name)'')
               # (FilesCreate \<lparr>b_name = Some (the (u_folder_name (self s))),
                            b_mimeType = Some ''application/vnd.google-apps.folder'',
                            b_parents = None, b_trashed = None\<rparr> None ''id'') # rest
             \<and> only_reads rest"
    by simp
next
  assume a: "credentials env (service_account_file (self s)) = None
      \<and> (truthy (u_folder_name (self s)) \<and> \<not> truthy (u_folder_id (self s)) \<longrightarrow>
            find_or_create_spec env (the (u_folder_name (self s)))
              (s\<lparr>self := (self s)\<lparr>drive_service := True\<rparr>\<rparr>) = (Inr adopted, sf))
      \<and> s1 = (if truthy (u_folder_name (self s)) \<and> \<not> truthy (u_folder_id (self s))
               then sf\<lparr>self := (self sf)\<lparr>u_folder_id := adopted\<rparr>\<rparr>
               else s\<lparr>self := (self s)\<lparr>drive_service := True\<rparr>\<rparr>)
      \<and> truthy (file_name (self s)) \<and> \<not> truthy (file_id (self s))
      \<and> find_file_by_name env (the (file_name (self s))) s1 = (Inr found, s2)"
  then show "initialize env s =
           (if truthy found
            then seq (exists env) (\<lambda>present. if present then load_metadata env else ret ())
                   (s2\<lparr>self := (self s2)\<lparr>file_id := found\<rparr>\<rparr>)
            else (Inr (), s2\<lparr>self := (self s2)\<lparr>file_id := found\<rparr>\<rparr>))"
    using initialize_file_step[of env s adopted sf s1 found s2] by blast
  from a have "find_file_by_name env (the (file_name (self s))) s1 = (Inr found, s2)" by blast
  from find_file_by_name_calls[OF this]
  show "calls s2 = calls s1 @
             [FilesList (''name='' @ sq (the (file_name (self s)))
                         @ '' and trashed=false and mimeType!=''
                         @ sq ''application/vnd.google-apps.folder''
                         @ (if truthy (u_folder_id (self s1))
                            then '' and '' @ sq (the (u_folder_id (self s1))) @ '' in parents''
                            else []))
                ''drive'' ''files(id)'']" .
next
  assume "initialize env s = (r, s')"
  from initialize_quiet_or_loaded[OF this]
  show "(cache s' = cache s \<and> file_name (self s') = file_name (self s)
           \<and> u_size (self s') = u_size (self s) \<and> u_mime_type (self s') = u_mime_type (self s)
           \<and> u_created_time (self s') = u_created_time (self s)
           \<and> u_modified_time (self s') = u_modified_time (self s))
        \<or> (r = Inr () \<and> truthy (file_id (self s'))
            \<and> (\<exists>hist got. server env hist (FilesGet (file_id (self s')) ''id, trashed'') = Inr got
                           \<and> r_trashed got \<noteq> Some True)
            \<and> cache s' = (cache s)(data_id (self s') \<mapsto> self s'))"
    by (auto simp: quiet_def loaded_def)
qed

lemma fresh_simps:
  "service_account_file (self fresh) = ''key.json''" "file_id (self fresh) = None"
  "file_name (self fresh) = Some ''a.txt''" "u_folder_id (self fresh) = None"
  "u_folder_name (self fresh) = None" "calls fresh = []" "cache fresh = (\<lambda>k. None)"
  "data_id (self fresh) = ''driverator_a.txt''" "drive_service (self fresh) = False"
  by (simp_all add: fresh_def construct_def Driverator_def py_or_def fmt_def truthy_def)

lemma shelved_simps:
  "service_account_file (self shelved) = ''key.json''" "file_id (self shelved) = None"
  "file_name (self shelved) = Some ''a.txt''" "u_folder_id (self shelved) = None"
  "u_folder_name (self shelved) = Some ''Archive''" "calls shelved = []"
  "drive_service (self shelved) = False"
  by (simp_all add: shelved_def construct_def Driverator_def)

theorem initialize_resolves_then_loads_witness:
  "initialize demo_env fresh =
     (Inr (), fresh\<lparr>self := (self fresh)\<lparr>drive_service := True\<rparr>,
                    calls := [FilesList (''name='' @ sq ''a.txt'' @ '' and trashed=false and mimeType!='' @ sq ''application/vnd.google-apps.folder'') ''drive'' ''files(id)'']\<rparr>)
   \<and> u_folder_id (self (snd (initialize demo_env folder_only))) = Some ''fo1''
   \<and> u_folder_id (self (snd (initialize shelf_env shelved))) = Some ''top''
   \<and> calls (snd (initialize shelf_env shelved)) =
       [FilesList (''name='' @ sq ''Archive'' @ '' and mimeType='' @ sq ''application/vnd.google-apps.folder'' @ '' and trashed=false'') ''drive'' ''files(id, name)'',
        FilesList (''name='' @ sq ''a.txt'' @ '' and trashed=false and mimeType!='' @ sq ''application/vnd.google-apps.folder'' @ '' and '' @ sq ''top'' @ '' in parents'') ''drive'' ''files(id)'']
   \<and> file_id (self (snd (initialize shelf_env shelved))) = None
   \<and> fst (initialize found_env fresh) = Inr ()
   \<and> file_id (self (snd (initialize found_env fresh))) = Some ''f1''
   \<and> cache (snd (initialize found_env fresh)) ''driverator_a.txt''
       = Some (self (snd (initialize found_env fresh)))"
proof -
  let ?a = "fresh\<lparr>self := (self fresh)\<lparr>drive_service := True\<rparr>\<rparr>"
  let ?s2 = "?a\<lparr>calls := [FilesList (''name='' @ sq ''a.txt'' @ '' and trashed=false and mimeType!='' @ sq ''application/vnd.google-apps.folder'') ''drive'' ''files(id)'']\<rparr>"
  have ff: "find_file_by_name demo_env (the (file_name (self fresh))) ?a = (Inr None, ?s2)"
    by (simp add: find_file_by_name_def Let_def io_defs execute_def fresh_simps demo_server
        demo_answer_simps demo_reply_def truthy_def)
  have A: "initialize demo_env fresh = (Inr (), ?s2\<lparr>self := (self ?s2)\<lparr>file_id := None\<rparr>\<rparr>)"
    using initialize_resolves_then_loads [where env = demo_env and s = fresh and ?s1.0 = ?a
        and found = None and ?s2.0 = ?s2,
        THEN conjunct2, THEN conjunct2, THEN conjunct2, THEN conjunct1] ff
    by (simp add: fresh_simps demo_credentials truthy_def)
  have same: "?s2\<lparr>self := (self ?s2)\<lparr>file_id := None\<rparr>\<rparr> = ?s2"
    by (simp add: fresh_def construct_def Driverator_def)
  have eqB: "initialize demo_env folder_only =
       (fst (initialize demo_env folder_only), snd (initialize demo_env folder_only))" by simp
  have B: "u_folder_id (self (snd (initialize demo_env folder_only))) = Some ''fo1''"
    using initialize_resolves_then_loads [where env = demo_env and s = folder_only
        and listing = demo_reply
        and folder = "demo_reply\<lparr>r_id := Some ''fo1'', r_name := Some ''Archive''\<rparr>"
        and r = "fst (initialize demo_env folder_only)"
        and s' = "snd (initialize demo_env folder_only)",
        THEN conjunct2, THEN conjunct2, THEN conjunct1] eqB
    by (simp add: folder_only_simps demo_credentials demo_server demo_answer_simps
        demo_reply_def truthy_def)
  have eqS: "initialize shelf_env shelved =
       (fst (initialize shelf_env shelved), snd (initialize shelf_env shelved))" by simp
  have S: "u_folder_id (self (snd (initialize shelf_env shelved))) = Some ''top''"
    using initialize_resolves_then_loads [where env = shelf_env and s = shelved
        and listing = "demo_reply\<lparr>r_files := Some [\<lparr>e_id = Some ''top'', e_name = Some ''Archive''\<rparr>]\<rparr>"
        and entry = "\<lparr>e_id = Some ''top'', e_name = Some ''Archive''\<rparr>" and others = "[]" and folder_found = "''top''"
        and r = "fst (initialize shelf_env shelved)"
        and s' = "snd (initialize shelf_env shelved)",
        THEN conjunct2, THEN conjunct1] eqS
    by (simp add: shelved_simps shelf_credentials shelf_server shelf_answer_simps truthy_def)
  have S2: "calls (snd (initialize shelf_env shelved)) =
       [FilesList (''name='' @ sq ''Archive'' @ '' and mimeType='' @ sq ''application/vnd.google-apps.folder'' @ '' and trashed=false'') ''drive'' ''files(id, name)'',
        FilesList (''name='' @ sq ''a.txt'' @ '' and trashed=false and mimeType!='' @ sq ''application/vnd.google-apps.folder'' @ '' and '' @ sq ''top'' @ '' in parents'') ''drive'' ''files(id)'']"
    "file_id (self (snd (initialize shelf_env shelved))) = None"
    by (simp_all add: initialize_def authenticate_def find_folder_by_name_def
        find_file_by_name_def Let_def io_defs execute_def shelved_simps shelf_credentials
        shelf_server shelf_answer_simps demo_reply_def truthy_def fmt_def)
  have ev: "fst (initialize found_env fresh) = Inr ()"
    "file_id (self (snd (initialize found_env fresh))) = Some ''f1''"
    "data_id (self (snd (initialize found_env fresh))) = ''driverator_a.txt''"
    "cache (snd (initialize found_env fresh)) \<noteq> cache fresh"
    by (simp_all add: initialize_def authenticate_def find_file_by_name_def exists_def
        load_metadata_def Let_def io_defs execute_def fresh_simps found_env_def demo_reply_def
        truthy_def fun_eq_iff)
  have eq: "initialize found_env fresh =
       (fst (initialize found_env fresh), snd (initialize found_env fresh))" by simp
  have C: "cache (snd (initialize found_env fresh)) ''driverator_a.txt''
       = Some (self (snd (initialize found_env fresh)))"
    using initialize_resolves_then_loads [where env = found_env and s = fresh
        and r = "fst (initialize found_env fresh)"
        and s' = "snd (initialize found_env fresh)",
        THEN conjunct2, THEN conjunct2, THEN conjunct2, THEN conjunct2, THEN mp, OF eq] ev
    by auto
  from A same B S S2 ev C show ?thesis by simp
qed

section \<open>The derived URLs\<close>





















end
